theory Spec2Isabelle
  imports Main
begin

unbundle bit_operations_syntax

section \<open>The Active Directory backend of LdapCherry\<close>

text \<open>
  A shallow embedding of \<^verbatim>\<open>ldapcherry/backend/backendAD.py\<close>, read with the
  semantics of Python 3. The class \<^verbatim>\<open>Backend\<close> extends the generic LDAP backend
  \<^verbatim>\<open>ldapcherry.backend.backendLdap.Backend\<close>, whose methods (\<^verbatim>\<open>_bind\<close>,
  \<^verbatim>\<open>_connect\<close>, \<^verbatim>\<open>_get_user\<close>, \<^verbatim>\<open>_byte_p2\<close>, \<^verbatim>\<open>_uni\<close>, \<^verbatim>\<open>get_param\<close>, the
  inherited \<^verbatim>\<open>add_user\<close>, \<^verbatim>\<open>set_attrs\<close>, \<^verbatim>\<open>add_to_groups\<close>, \<^verbatim>\<open>del_from_groups\<close>)
  and the directory server behind them are parameters of the model.
\<close>

subsection \<open>Strings and bytes\<close>

text \<open>
  A Python 3 \<^verbatim>\<open>str\<close> is a sequence of Unicode code points, a \<^verbatim>\<open>bytes\<close> value a
  sequence of octets. Code points and octets are natural numbers. \<open>U\<close> reads a
  literal of the source as a \<^verbatim>\<open>str\<close>, \<open>B\<close> as a \<^verbatim>\<open>bytes\<close> value, so that
  \<^verbatim>\<open>b'512'\<close> is \<open>B ''512''\<close>.
\<close>

type_synonym pystr = "nat list"
type_synonym bytes = "nat list"

definition U :: "string \<Rightarrow> pystr" where
  "U s = map of_char s"

definition B :: "string \<Rightarrow> bytes" where
  "B s = map of_char s"

text \<open>\<^verbatim>\<open>sep.join(xs)\<close>\<close>

fun join :: "pystr \<Rightarrow> pystr list \<Rightarrow> pystr" where
  "join sep [] = []"
| "join sep [x] = x"
| "join sep (x # y # ys) = x @ sep @ join sep (y # ys)"

text \<open>\<^verbatim>\<open>s.split(c)\<close> for a separator \<open>c\<close> of one character: the result is never empty.\<close>

fun split_on :: "nat \<Rightarrow> pystr \<Rightarrow> pystr list" where
  "split_on c [] = [[]]"
| "split_on c (x # xs) =
     (if x = c then [] # split_on c xs
      else (case split_on c xs of
              [] \<Rightarrow> [[x]]
            | w # ws \<Rightarrow> (x # w) # ws))"

text \<open>\<^verbatim>\<open>re.sub(r'\.', repl, s)\<close>: every full stop of \<open>s\<close> is replaced by \<open>repl\<close>.\<close>

definition dot :: nat where
  "dot = of_char (CHR ''.'')"

definition re_sub_dot :: "pystr \<Rightarrow> pystr \<Rightarrow> pystr" where
  "re_sub_dot repl s = concat (map (\<lambda>c. if c = dot then repl else [c]) s)"

subsection \<open>Errors\<close>

text \<open>
  The exceptions that the modelled code raises itself, the ones Python raises on its
  behalf, and the ones that come out of the LDAP library and the inherited methods
  (\<open>LDAPError\<close> with a number stands for any exception other than the named ones).
\<close>

datatype error =
    MissingAttr
  | MissingParameter pystr
  | TypeError
  | KeyError pystr
  | IndexError
  | UnicodeEncodeError
  | INVALID_CREDENTIALS
  | UserDoesntExist pystr
  | GroupDoesntExist pystr
  | LDAPError nat

text \<open>
  Sequencing of statements that may raise: the first exception ends the computation
  and is its result.
\<close>

definition bind_err :: "error + 'a \<Rightarrow> ('a \<Rightarrow> error + 'b) \<Rightarrow> error + 'b" where
  "bind_err m f = (case m of Inl e \<Rightarrow> Inl e | Inr x \<Rightarrow> f x)"

subsection \<open>Constants of the module\<close>

definition NO_ATTR :: nat where "NO_ATTR = 0"
definition DISPLAYED_ATTRS :: nat where "DISPLAYED_ATTRS = 1"
definition LISTED_ATTRS :: nat where "LISTED_ATTRS = 2"
definition ALL_ATTRS :: nat where "ALL_ATTRS = 3"

text \<open>Values of the flags of \<^verbatim>\<open>UserAccountControl\<close> that concern the creation of a user.\<close>

definition ACCOUNTDISABLE :: nat where "ACCOUNTDISABLE = 0x0002"
definition LOCKOUT :: nat where "LOCKOUT = 0x0010"
definition NORMAL_ACCOUNT :: nat where "NORMAL_ACCOUNT = 0x0200"

definition AD_BUILTIN_GROUPS :: "pystr list" where
  "AD_BUILTIN_GROUPS = map U [
     ''Pre-Windows 2000 Compatible Access'',
     ''Windows Authorization Access Group'',
     ''Certificate Service DCOM Access'',
     ''Network Configuration Operators'',
     ''Terminal Server License Servers'',
     ''Incoming Forest Trust Builders'',
     ''Performance Monitor Users'',
     ''Cryptographic Operators'',
     ''Distributed COM Users'',
     ''Performance Log Users'',
     ''Remote Desktop Users'',
     ''Account Operators'',
     ''Event Log Readers'',
     ''Backup Operators'',
     ''Server Operators'',
     ''Print Operators'',
     ''Administrators'',
     ''Replicator'',
     ''IIS_IUSRS'',
     ''Guests'',
     ''Users'']"

subsection \<open>Construction of the backend\<close>

text \<open>
  Values of the configuration: strings, booleans and numbers. \<^verbatim>\<open>get_param(name,
  default)\<close> is inherited and not part of the module: it is the parameter
  \<open>get_param\<close> of \<open>init\<close>, which returns the configured value or raises.
  \<^verbatim>\<open>os.getenv(name, default)\<close> returns the variable of the process environment when
  it is set and the default otherwise.
\<close>

datatype pval = PStr pystr | PBool bool | PInt int

definition getenv :: "(pystr \<Rightarrow> pystr option) \<Rightarrow> pystr \<Rightarrow> pval \<Rightarrow> pval" where
  "getenv environ name dflt =
     (case environ name of Some v \<Rightarrow> PStr v | None \<Rightarrow> dflt)"

text \<open>An operand of a string concatenation or of \<^verbatim>\<open>re.sub\<close> has to be a string.\<close>

fun as_str :: "pval \<Rightarrow> error + pystr" where
  "as_str (PStr s) = Inr s"
| "as_str _ = Inl TypeError"

text \<open>
  The fields of the object that the methods of the module read. The assignments of
  \<^verbatim>\<open>__init__\<close> to \<^verbatim>\<open>search_filter_tmpl\<close>, \<^verbatim>\<open>user_filter_tmpl\<close>, \<^verbatim>\<open>objectclasses\<close>,
  \<^verbatim>\<open>group_attrs\<close> and \<^verbatim>\<open>group_attrs_keys\<close> store constants that only inherited
  code reads, and raise nothing; they are left out.
\<close>

record backend =
  backend_name :: pystr
  backend_display_name :: pval
  domain :: pystr
  login :: pystr
  binddn :: pystr
  bindpassword :: pval
  ca :: pval
  checkcert :: pval
  starttls :: pval
  uri :: pval
  timeout :: pval
  userdn :: pystr
  groupdn :: pystr
  builtin :: pystr
  dn_user_attr :: pystr
  key :: pystr
  attrlist :: "pystr list"

text \<open>Line 107: \<^verbatim>\<open>basedn = 'dc=' + re.sub(r'\.', ',DC=', self.domain)\<close>\<close>

definition basedn_of :: "pystr \<Rightarrow> pystr" where
  "basedn_of d = U ''dc='' @ re_sub_dot (U '',DC='') d"

text \<open>\<^verbatim>\<open>self.domain.split(".")[0]\<close>\<close>

definition first_label :: "pystr \<Rightarrow> error + pystr" where
  "first_label d = (case split_on dot d of [] \<Rightarrow> Inl IndexError | w # _ \<Rightarrow> Inr w)"

text \<open>
  \<^verbatim>\<open>Backend.__init__(self, config, logger, name, attrslist, key)\<close>. The configuration
  is read through \<open>get_param\<close>; the argument \<^verbatim>\<open>key\<close> is not used by the source. The
  statements run in the order of the source, and the first that raises ends the
  construction. No statement of the constructor calls \<^verbatim>\<open>_connect\<close> or \<^verbatim>\<open>_bind\<close>.
\<close>

definition init ::
  "(pystr \<Rightarrow> pval option \<Rightarrow> error + pval) \<Rightarrow> (pystr \<Rightarrow> pystr option) \<Rightarrow> (pystr \<Rightarrow> pystr) \<Rightarrow>
   pystr \<Rightarrow> pystr list \<Rightarrow> error + backend" where
  "init get_param environ byte_p2 name attrslist =
    bind_err (get_param (U ''display_name'') None) (\<lambda>display_name.
    bind_err (get_param (U ''domain'') None) (\<lambda>domain_v.
    bind_err (get_param (U ''login'') None) (\<lambda>login_d.
    let login_v = getenv environ (U ''AD_LOGIN'') login_d in
    bind_err (as_str domain_v) (\<lambda>dmn.
    let basedn = basedn_of dmn in
    bind_err (as_str login_v) (\<lambda>lgn.
    let binddn_v = lgn @ U ''@'' @ dmn in
    bind_err (get_param (U ''password'') None) (\<lambda>password_d.
    let bindpassword_v = getenv environ (U ''PASSWORD'') password_d in
    bind_err (get_param (U ''ca'') (Some (PBool False))) (\<lambda>ca_v.
    bind_err (get_param (U ''checkcert'') (Some (PStr (U ''on'')))) (\<lambda>checkcert_v.
    bind_err (get_param (U ''starttls'') (Some (PStr (U ''off'')))) (\<lambda>starttls_v.
    bind_err (get_param (U ''uri'') None) (\<lambda>uri_v.
    bind_err (get_param (U ''timeout'') (Some (PInt 1))) (\<lambda>timeout_v.
    bind_err (first_label dmn) (\<lambda>label.
    let userdn_v = U ''OU=Users,OU='' @ label @ U '','' @ basedn;
        groupdn_v = userdn_v;
        builtin_v = U ''CN=Builtin,'' @ basedn;
        attrlist_v = map byte_p2 attrslist
    in if byte_p2 (U ''cn'') \<notin> set attrlist_v then Inl MissingAttr
       else if byte_p2 (U ''unicodePwd'') \<notin> set attrlist_v then Inl MissingAttr
       else Inr \<lparr> backend_name = name,
                  backend_display_name = display_name,
                  domain = dmn,
                  login = lgn,
                  binddn = binddn_v,
                  bindpassword = bindpassword_v,
                  ca = ca_v,
                  checkcert = checkcert_v,
                  starttls = starttls_v,
                  uri = uri_v,
                  timeout = timeout_v,
                  userdn = userdn_v,
                  groupdn = groupdn_v,
                  builtin = builtin_v,
                  dn_user_attr = U ''cn'',
                  key = U ''sAMAccountName'',
                  attrlist = attrlist_v \<rparr>))))))))))))"

text \<open>\<^verbatim>\<open>Backend._build_groupdn(self, groups)\<close>\<close>

fun build_groupdn :: "backend \<Rightarrow> pystr list \<Rightarrow> pystr list" where
  "build_groupdn self [] = []"
| "build_groupdn self (grp # groups) =
     (if grp \<in> set AD_BUILTIN_GROUPS
      then (U ''cn='' @ grp @ U '','' @ builtin self) # build_groupdn self groups
      else (U ''cn='' @ grp @ U '','' @ groupdn self) # build_groupdn self groups)"

subsection \<open>The directory and the inherited methods\<close>

text \<open>
  The caller's attribute mapping is a dictionary from attribute names to values. An
  entry of a search result is a pair of a distinguished name and a dictionary from
  attribute names to lists of values. A modification is a triple of the operation, the
  attribute and the values, as \<^verbatim>\<open>modify_s\<close> takes it.
\<close>

type_synonym attrs = "pystr \<rightharpoonup> pystr"
type_synonym entry = "pystr \<times> (pystr \<rightharpoonup> bytes list)"

datatype mod_op = MOD_ADD | MOD_DELETE | MOD_REPLACE

type_synonym modification = "mod_op \<times> pystr \<times> bytes list"

text \<open>
  What the module asks of the world outside it: the primitives of a directory session
  (\<open>Bind\<close> is the inherited \<^verbatim>\<open>_bind()\<close>, which returns a session bound with the
  service account, \<open>Connect\<close> the inherited \<^verbatim>\<open>_connect()\<close>, which returns a session
  not yet bound; \<open>Delete\<close> is \<^verbatim>\<open>delete_s\<close>, which no method of the module calls), the
  inherited methods of the generic backend, and the logger.
\<close>

datatype call =
    Bind
  | Connect
  | SimpleBind pystr pystr
  | Search pystr pystr
  | Modify pystr "modification list"
  | Delete pystr
  | Unbind
  | GetUser pystr
  | SuperAddUser attrs
  | SuperSetAttrs pystr attrs
  | SuperAddToGroups pystr "pystr list"
  | SuperDelFromGroups pystr "pystr list"
  | LogDebug

text \<open>
  An event is a call together with the exception it raised, if any. The trace of a
  method is the list of the events it caused, in order.
\<close>

type_synonym event = "call \<times> error option"

text \<open>
  The environment of the module. \<open>raises\<close> tells, from the trace so far, whether a
  call raises and what; \<open>found\<close> and \<open>user_dn\<close> are the values that \<^verbatim>\<open>search_s\<close>
  and \<^verbatim>\<open>_get_user\<close> return when they do not raise. \<open>byte_p2\<close>, \<open>uni\<close> and
  \<open>escape_filter_chars\<close> are the conversions \<^verbatim>\<open>_byte_p2\<close>, \<^verbatim>\<open>_uni\<close> and
  \<^verbatim>\<open>ldap.filter.escape_filter_chars\<close>. The inherited methods are taken to leave the
  caller's attribute mapping as they find it, and \<^verbatim>\<open>unbind_s\<close> to return.

  Modelled from the spec: the inherited \<^verbatim>\<open>_exception_handler\<close> is missing from the
  sources; by the propagation policy of the specification (an error is logged and
  propagated, never swallowed) it raises, so \<open>exception_handler\<close> maps the exception
  it is given to the one it raises.
\<close>

record env =
  byte_p2 :: "pystr \<Rightarrow> pystr"
  uni :: "bytes \<Rightarrow> pystr"
  escape_filter_chars :: "pystr \<Rightarrow> pystr"
  exception_handler :: "error \<Rightarrow> error"
  raises :: "event list \<Rightarrow> call \<Rightarrow> error option"
  found :: "event list \<Rightarrow> pystr \<Rightarrow> pystr \<Rightarrow> entry list"
  user_dn :: "event list \<Rightarrow> pystr \<Rightarrow> pystr"

text \<open>
  A method takes the trace so far and returns the trace extended by its own events,
  with its result or the exception that left it.
\<close>

type_synonym 'a io = "event list \<Rightarrow> event list \<times> (error + 'a)"

definition return_io :: "'a \<Rightarrow> 'a io" where
  "return_io x tr = (tr, Inr x)"

definition raise_io :: "error \<Rightarrow> 'a io" where
  "raise_io e tr = (tr, Inl e)"

definition lift_io :: "error + 'a \<Rightarrow> 'a io" where
  "lift_io r tr = (tr, r)"

definition bind_io :: "'a io \<Rightarrow> ('a \<Rightarrow> 'b io) \<Rightarrow> 'b io" where
  "bind_io m f tr = (case m tr of (tr', Inl e) \<Rightarrow> (tr', Inl e) | (tr', Inr x) \<Rightarrow> f x tr')"

text \<open>\<^verbatim>\<open>try: m  except Exception as e: h(e)\<close>\<close>

definition catch_io :: "'a io \<Rightarrow> (error \<Rightarrow> 'a io) \<Rightarrow> 'a io" where
  "catch_io m h tr = (case m tr of (tr', Inl e) \<Rightarrow> h e tr' | (tr', Inr x) \<Rightarrow> (tr', Inr x))"

definition perform :: "env \<Rightarrow> call \<Rightarrow> unit io" where
  "perform E c tr =
     (tr @ [(c, raises E tr c)], case raises E tr c of None \<Rightarrow> Inr () | Some e \<Rightarrow> Inl e)"

definition unbind_s :: "unit io" where
  "unbind_s tr = (tr @ [(Unbind, None)], Inr ())"

definition search_s :: "env \<Rightarrow> pystr \<Rightarrow> pystr \<Rightarrow> entry list io" where
  "search_s E base searchfilter tr =
     (tr @ [(Search base searchfilter, raises E tr (Search base searchfilter))],
      case raises E tr (Search base searchfilter) of
        None \<Rightarrow> Inr (found E tr base searchfilter)
      | Some e \<Rightarrow> Inl e)"

definition get_user :: "env \<Rightarrow> pystr \<Rightarrow> pystr io" where
  "get_user E username tr =
     (tr @ [(GetUser username, raises E tr (GetUser username))],
      case raises E tr (GetUser username) of
        None \<Rightarrow> Inr (user_dn E tr username)
      | Some e \<Rightarrow> Inl e)"

text \<open>\<^verbatim>\<open>d[k]\<close> on a dictionary raises \<^verbatim>\<open>KeyError\<close> when the key is missing.\<close>

definition lookup :: "('a \<rightharpoonup> 'b) \<Rightarrow> 'a \<Rightarrow> (pystr \<Rightarrow> error) \<Rightarrow> pystr \<Rightarrow> error + 'b" where
  "lookup d k err name = (case d k of None \<Rightarrow> Inl (err name) | Some v \<Rightarrow> Inr v)"

subsection \<open>The password on the wire\<close>

text \<open>
  \<^verbatim>\<open>s.encode('utf-16-le')\<close>: a code point of the basic plane is two octets, low octet
  first; a code point above it is a surrogate pair, each half written the same way; a
  lone surrogate cannot be encoded and raises \<^verbatim>\<open>UnicodeEncodeError\<close>.
\<close>

definition utf_16_le_unit :: "nat \<Rightarrow> bytes" where
  "utf_16_le_unit u = [u mod 256, u div 256]"

definition utf_16_le_char :: "nat \<Rightarrow> error + bytes" where
  "utf_16_le_char c =
     (if c < 0xD800 \<or> (0xE000 \<le> c \<and> c < 0x10000) then Inr (utf_16_le_unit c)
      else if 0x10000 \<le> c \<and> c < 0x110000 then
        Inr (utf_16_le_unit (0xD800 + (c - 0x10000) div 0x400) @
             utf_16_le_unit (0xDC00 + (c - 0x10000) mod 0x400))
      else Inl UnicodeEncodeError)"

fun utf_16_le :: "pystr \<Rightarrow> error + bytes" where
  "utf_16_le [] = Inr []"
| "utf_16_le (c # cs) =
     bind_err (utf_16_le_char c) (\<lambda>b. bind_err (utf_16_le cs) (\<lambda>bs. Inr (b @ bs)))"

text \<open>The quotation mark, \<^verbatim>\<open>'"'\<close>.\<close>

definition dquote :: pystr where
  "dquote = [0x22]"

text \<open>The value of a decimal numeral written in octets, as the directory reads it.\<close>

definition decimal :: "bytes \<Rightarrow> nat" where
  "decimal bs = foldl (\<lambda>n c. 10 * n + (c - 48)) 0 bs"

subsection \<open>The methods of the backend\<close>

text \<open>\<^verbatim>\<open>Backend._search_group(self, searchfilter, groupdn)\<close>\<close>

definition search_group :: "env \<Rightarrow> backend \<Rightarrow> pystr \<Rightarrow> pystr \<Rightarrow> entry list io" where
  "search_group E self searchfilter groupdn_a =
     (let searchfilter_b = byte_p2 E searchfilter in
      bind_io (perform E Bind) (\<lambda>_.
      bind_io (catch_io (search_s E groupdn_a searchfilter_b)
                 (\<lambda>e. bind_io unbind_s (\<lambda>_. raise_io (exception_handler E e)))) (\<lambda>r.
      bind_io unbind_s (\<lambda>_.
      return_io r))))"

text \<open>
  \<^verbatim>\<open>Backend._set_password(self, name, password, by_cn=True)\<close>. The method returns
  after the call of \<^verbatim>\<open>modify_s\<close>; the statements after the \<^verbatim>\<open>return\<close> never run.
\<close>

definition set_password :: "env \<Rightarrow> backend \<Rightarrow> pystr \<Rightarrow> pystr \<Rightarrow> bool \<Rightarrow> unit io" where
  "set_password E self name password by_cn =
     (let unicode_pass = dquote @ password @ dquote in
      bind_io (lift_io (utf_16_le unicode_pass)) (\<lambda>password_value.
      bind_io (perform E Bind) (\<lambda>_.
      let dn = (if by_cn then byte_p2 E (U ''CN='' @ name @ U '','' @ userdn self)
                else byte_p2 E name) in
      bind_io (perform E (Modify dn [(MOD_REPLACE, U ''unicodePwd'', [password_value])])) (\<lambda>_.
      return_io ()))))"

text \<open>
  \<^verbatim>\<open>Backend.add_user(self, attrs)\<close>. The method changes the dictionary it is given;
  the first component of the result is that dictionary when the method is left.
\<close>

definition add_user_session :: "env \<Rightarrow> backend \<Rightarrow> attrs \<Rightarrow> pystr \<Rightarrow> unit io" where
  "add_user_session E self attrs password =
     bind_io (perform E (SuperAddUser attrs)) (\<lambda>_.
     bind_io (perform E Bind) (\<lambda>_.
     bind_io (lift_io (lookup attrs (U ''cn'') KeyError (U ''cn''))) (\<lambda>cn.
     let dn = byte_p2 E (U ''CN='' @ cn @ U '','' @ userdn self) in
     bind_io (lift_io (utf_16_le (dquote @ password @ dquote))) (\<lambda>encoded_password.
     bind_io (perform E (Modify dn [(MOD_REPLACE, U ''unicodePwd'', [encoded_password])])) (\<lambda>_.
     bind_io (perform E (Modify dn [(MOD_REPLACE, U ''UserAccountControl'', [B ''512''])])) (\<lambda>_.
     unbind_s))))))"

definition add_user :: "env \<Rightarrow> backend \<Rightarrow> attrs \<Rightarrow> event list \<Rightarrow> attrs \<times> event list \<times> (error + unit)" where
  "add_user E self attrs tr =
     (case attrs (U ''unicodePwd'') of
        None \<Rightarrow> (attrs, tr, Inl (KeyError (U ''unicodePwd'')))
      | Some password \<Rightarrow>
          (let attrs1 = attrs (U ''unicodePwd'' := None) in
           case attrs1 (U ''sAMAccountName'') of
             None \<Rightarrow> (attrs1, tr, Inl (KeyError (U ''sAMAccountName'')))
           | Some name \<Rightarrow>
               (let attrs2 = attrs1 (U ''userPrincipalName'' \<mapsto> name @ U ''@'' @ domain self) in
                case attrs2 (U ''cn'') of
                  None \<Rightarrow> (attrs2, tr, Inl (KeyError (U ''cn'')))
                | Some cn \<Rightarrow>
                    (let attrs3 = attrs2 (U ''displayName'' \<mapsto> cn) in
                     (attrs3, add_user_session E self attrs3 password tr)))))"

text \<open>\<^verbatim>\<open>Backend.set_attrs(self, username, attrs)\<close>, with the dictionary as in \<open>add_user\<close>.\<close>

definition set_attrs ::
  "env \<Rightarrow> backend \<Rightarrow> pystr \<Rightarrow> attrs \<Rightarrow> event list \<Rightarrow> attrs \<times> event list \<times> (error + unit)" where
  "set_attrs E self username attrs tr =
     (case attrs (U ''unicodePwd'') of
        Some password \<Rightarrow>
          (let attrs1 = attrs (U ''unicodePwd'' := None) in
           (attrs1,
            bind_io (get_user E (byte_p2 E username)) (\<lambda>userdn_v.
            bind_io (set_password E self userdn_v password False) (\<lambda>_.
            perform E (SuperSetAttrs username attrs1))) tr))
      | None \<Rightarrow> (attrs, perform E (SuperSetAttrs username attrs) tr))"

text \<open>\<^verbatim>\<open>Backend.add_to_groups\<close> and \<^verbatim>\<open>Backend.del_from_groups\<close>\<close>

definition add_to_groups :: "env \<Rightarrow> backend \<Rightarrow> pystr \<Rightarrow> pystr list \<Rightarrow> unit io" where
  "add_to_groups E self username groups =
     (let ad_groups = build_groupdn self groups in
      perform E (SuperAddToGroups username ad_groups))"

definition del_from_groups :: "env \<Rightarrow> backend \<Rightarrow> pystr \<Rightarrow> pystr list \<Rightarrow> unit io" where
  "del_from_groups E self username groups =
     (let ad_groups = build_groupdn self groups in
      perform E (SuperDelFromGroups username ad_groups))"

text \<open>
  \<^verbatim>\<open>Backend.get_groups(self, username)\<close>. The loop at its end reads
  \<^verbatim>\<open>entry[1]['cn'][0]\<close> of every entry, in order.
\<close>

fun cn_names :: "env \<Rightarrow> entry list \<Rightarrow> error + pystr list" where
  "cn_names E [] = Inr []"
| "cn_names E (entry # entries) =
     bind_err (lookup (snd entry) (U ''cn'') KeyError (U ''cn'')) (\<lambda>vs.
     bind_err (case vs of [] \<Rightarrow> Inl IndexError | v # _ \<Rightarrow> Inr v) (\<lambda>v.
     bind_err (cn_names E entries) (\<lambda>ret.
     Inr (uni E v # ret))))"

definition get_groups :: "env \<Rightarrow> backend \<Rightarrow> pystr \<Rightarrow> pystr list io" where
  "get_groups E self username =
     (let username_e = escape_filter_chars E username in
      bind_io (get_user E (byte_p2 E username_e)) (\<lambda>userdn_v.
      let searchfilter = U ''(member='' @ userdn_v @ U '')'' in
      bind_io (search_group E self searchfilter (groupdn self)) (\<lambda>groups1.
      bind_io (search_group E self searchfilter (builtin self)) (\<lambda>groups2.
      let groups = groups1 @ groups2 in
      bind_io (perform E LogDebug) (\<lambda>_.
      lift_io (cn_names E groups))))))"

text \<open>
  \<^verbatim>\<open>Backend.auth(self, username, password)\<close>. \<^verbatim>\<open>binddn\<close> is a string and so never
  \<^verbatim>\<open>None\<close>: the \<^verbatim>\<open>else\<close> branch of the source is not reachable.
\<close>

definition auth :: "env \<Rightarrow> backend \<Rightarrow> pystr \<Rightarrow> pystr \<Rightarrow> bool io" where
  "auth E self username password =
     (let binddn_v = username @ U ''@'' @ domain self in
      bind_io (perform E Connect) (\<lambda>_.
      bind_io (catch_io
                 (bind_io (perform E (SimpleBind (byte_p2 E binddn_v) (byte_p2 E password)))
                    (\<lambda>_. return_io None))
                 (\<lambda>e. if e = INVALID_CREDENTIALS
                      then bind_io unbind_s (\<lambda>_. return_io (Some False))
                      else raise_io e)) (\<lambda>returned.
      case returned of
        Some b \<Rightarrow> return_io b
      | None \<Rightarrow> bind_io unbind_s (\<lambda>_. return_io True))))"

subsection \<open>Sessions\<close>

text \<open>
  The number of sessions that a trace leaves bound: a session is bound by a \<open>Bind\<close>
  or a \<open>SimpleBind\<close> that returns, and closed by \<open>Unbind\<close>.
\<close>

fun session_step :: "nat \<Rightarrow> event \<Rightarrow> nat" where
  "session_step n (Bind, None) = Suc n"
| "session_step n (SimpleBind who cred, None) = Suc n"
| "session_step n (Unbind, r) = n - 1"
| "session_step n ev = n"

definition open_sessions :: "event list \<Rightarrow> nat" where
  "open_sessions tr = foldl session_step 0 tr"

text \<open>
  The constructor as a method: it causes no event, whatever it returns.
\<close>

definition init_io ::
  "(pystr \<Rightarrow> pval option \<Rightarrow> error + pval) \<Rightarrow> (pystr \<Rightarrow> pystr option) \<Rightarrow> (pystr \<Rightarrow> pystr) \<Rightarrow>
   pystr \<Rightarrow> pystr list \<Rightarrow> backend io" where
  "init_io get_param environ conv name attrslist =
     lift_io (init get_param environ conv name attrslist)"

subsection \<open>The base DN as the specification words it\<close>

text \<open>
  The specification derives the base DN by splitting the domain on the full stop and
  joining the components as \<^verbatim>\<open>DC=\<close> segments.
\<close>

definition basedn_spec :: "pystr \<Rightarrow> pystr" where
  "basedn_spec d = join (U '','') (map (\<lambda>l. U ''DC='' @ l) (split_on dot d))"

text \<open>
  Distinguished names in string form (RFC 4514). A name is a sequence of relative names
  separated by commas, each an attribute type, the equality sign and a value. The
  directory compares attribute types without regard to the case of ASCII letters, so
  two strings are the same name when their relative names agree, the types up to case
  and the values exactly.
\<close>

definition comma :: nat where
  "comma = of_char (CHR '','')"

definition equals_sign :: nat where
  "equals_sign = of_char (CHR ''='')"

definition ascii_upper :: "nat \<Rightarrow> nat" where
  "ascii_upper c = (if 97 \<le> c \<and> c \<le> 122 then c - 32 else c)"

definition rdn_of :: "pystr \<Rightarrow> pystr \<times> pystr" where
  "rdn_of s =
     (map ascii_upper (takeWhile (\<lambda>c. c \<noteq> equals_sign) s),
      drop 1 (dropWhile (\<lambda>c. c \<noteq> equals_sign) s))"

definition dn_norm :: "pystr \<Rightarrow> (pystr \<times> pystr) list" where
  "dn_norm s = map rdn_of (split_on comma s)"

definition same_dn :: "pystr \<Rightarrow> pystr \<Rightarrow> bool" where
  "same_dn a b = (dn_norm a = dn_norm b)"

subsection \<open>The role catalogue\<close>

text \<open>
  Modelled from the spec: the module \<^verbatim>\<open>ldapcherry.roles\<close> (the class \<^verbatim>\<open>Roles\<close>
  and the exceptions that \<^verbatim>\<open>tests/test_Roles.py\<close> imports) is missing from the
  sources. The definitions of this subsection follow section 4.1 of the specification:
  the source is absent or an ordered sequence of role records; every record is checked
  for its display name and for at least one backend assignment, then its key is
  inserted into the set of keys and the canonical form of its assignments into the set
  of contents, a collision being an error.
\<close>

datatype role_error = MissingRolesFile | MissingKey | DuplicateRoleKey | DuplicateRoleContent

text \<open>
  A backend assignment: the name of the backend, the values it gives to attributes
  and the groups it grants.
\<close>

type_synonym assignment = "pystr \<times> (pystr \<times> pystr) list \<times> pystr list"

record role =
  role_key :: pystr
  display_name :: "pystr option"
  backends :: "assignment list option"

definition lacks_key :: "role \<Rightarrow> bool" where
  "lacks_key r =
     (display_name r = None \<or> (case backends r of None \<Rightarrow> True | Some bs \<Rightarrow> bs = []))"

text \<open>
  The resolved content of a role in a form that does not depend on the order of the
  source: the set of its (backend, attribute, value) triples and the set of its
  (backend, group) pairs.
\<close>

type_synonym content = "(pystr \<times> pystr \<times> pystr) set \<times> (pystr \<times> pystr) set"

definition assignment_content :: "assignment \<Rightarrow> content" where
  "assignment_content a =
     (case a of (b, avs, gs) \<Rightarrow> ((\<lambda>(k, v). (b, k, v)) ` set avs, (\<lambda>g. (b, g)) ` set gs))"

definition resolved_content :: "role \<Rightarrow> content" where
  "resolved_content r =
     (case backends r of
        None \<Rightarrow> ({}, {})
      | Some bs \<Rightarrow> (\<Union>a \<in> set bs. fst (assignment_content a),
                    \<Union>a \<in> set bs. snd (assignment_content a)))"

fun load_records ::
  "pystr list \<Rightarrow> content list \<Rightarrow> (pystr \<rightharpoonup> role) \<Rightarrow> role list \<Rightarrow> role_error + (pystr \<rightharpoonup> role)" where
  "load_records ks cs catalog [] = Inr catalog"
| "load_records ks cs catalog (r # rs) =
     (if lacks_key r then Inl MissingKey
      else if role_key r \<in> set ks then Inl DuplicateRoleKey
      else if resolved_content r \<in> set cs then Inl DuplicateRoleContent
      else load_records (role_key r # ks) (resolved_content r # cs)
             (catalog (role_key r \<mapsto> r)) rs)"

definition Load :: "role list option \<Rightarrow> role_error + (pystr \<rightharpoonup> role)" where
  "Load source =
     (case source of
        None \<Rightarrow> Inl MissingRolesFile
      | Some records \<Rightarrow> load_records [] [] Map.empty records)"

subsection \<open>A configuration, a directory and a role source to run the model on\<close>

definition example_config :: "pystr \<Rightarrow> pval option \<Rightarrow> error + pval" where
  "example_config name dflt =
     (if name = U ''display_name'' then Inr (PStr (U ''AD''))
      else if name = U ''domain'' then Inr (PStr (U ''dc.ldapcherry.org''))
      else if name = U ''login'' then Inr (PStr (U ''administrator''))
      else if name = U ''password'' then Inr (PStr (U ''qwertyP455''))
      else if name = U ''uri'' then Inr (PStr (U ''ldaps://ad.ldapcherry.org''))
      else (case dflt of Some v \<Rightarrow> Inr v | None \<Rightarrow> Inl (MissingParameter name)))"

definition example_backend :: backend where
  "example_backend =
     \<lparr> backend_name = U ''ad'',
       backend_display_name = PStr (U ''AD''),
       domain = U ''dc.ldapcherry.org'',
       login = U ''administrator'',
       binddn = U ''administrator@dc.ldapcherry.org'',
       bindpassword = PStr (U ''qwertyP455''),
       ca = PBool False,
       checkcert = PStr (U ''on''),
       starttls = PStr (U ''off''),
       uri = PStr (U ''ldaps://ad.ldapcherry.org''),
       timeout = PInt 1,
       userdn = U ''OU=Users,OU=dc,dc=dc,DC=ldapcherry,DC=org'',
       groupdn = U ''OU=Users,OU=dc,dc=dc,DC=ldapcherry,DC=org'',
       builtin = U ''CN=Builtin,dc=dc,DC=ldapcherry,DC=org'',
       dn_user_attr = U ''cn'',
       key = U ''sAMAccountName'',
       attrlist = [U ''cn'', U ''unicodePwd''] \<rparr>"

text \<open>
  A directory in which nothing raises, every user is found under the user container
  and every search returns one group named \<^verbatim>\<open>Users\<close>.
\<close>

definition quiet :: env where
  "quiet =
     \<lparr> byte_p2 = (\<lambda>s. s),
       uni = (\<lambda>b. b),
       escape_filter_chars = (\<lambda>s. s),
       exception_handler = (\<lambda>e. e),
       raises = (\<lambda>tr c. None),
       found = (\<lambda>tr base flt. [(U ''CN=Users,'' @ base, [U ''cn'' \<mapsto> [B ''Users'']])]),
       user_dn = (\<lambda>tr u. U ''CN='' @ u @ U '',OU=Users,OU=dc,dc=dc,DC=ldapcherry,DC=org'') \<rparr>"

text \<open>The same directory, refusing the credentials of every simple bind.\<close>

definition rejecting :: env where
  "rejecting =
     quiet \<lparr> raises := (\<lambda>tr c. case c of SimpleBind who cred \<Rightarrow> Some INVALID_CREDENTIALS
                                  | _ \<Rightarrow> None) \<rparr>"

text \<open>The same directory, refusing every modification with an error of the server.\<close>

definition refusing :: env where
  "refusing =
     quiet \<lparr> raises := (\<lambda>tr c. case c of Modify dn ms \<Rightarrow> Some (LDAPError 53)
                                  | _ \<Rightarrow> None) \<rparr>"

definition example_attrs :: attrs where
  "example_attrs =
     [U ''sAMAccountName'' \<mapsto> U ''alice'',
      U ''cn'' \<mapsto> U ''Alice Liddell'',
      U ''unicodePwd'' \<mapsto> U ''pw'']"

definition example_role :: "pystr \<Rightarrow> pystr \<Rightarrow> role" where
  "example_role k g =
     \<lparr> role_key = k, display_name = Some k, backends = Some [(U ''ad'', [], [g])] \<rparr>"

section \<open>Properties\<close>

subsection \<open>Auxiliary facts\<close>


lemma init_example:
  "init example_config (\<lambda>v. None) (\<lambda>s. s) (U ''ad'') [U ''cn'', U ''unicodePwd''] = Inr example_backend"
  by (simp add: init_def example_config_def example_backend_def bind_err_def getenv_def
      basedn_of_def re_sub_dot_def first_label_def dot_def U_def Let_def)

lemma split_on_nonempty: "split_on c s \<noteq> []"
  by (induction s) (auto split: list.splits)

lemma join_Cons: "ys \<noteq> [] \<Longrightarrow> join sep (x # ys) = x @ sep @ join sep ys"
  by (cases ys) simp_all

lemma join_head: "join sep ((x # w) # ws) = x # join sep (w # ws)"
  by (cases ws) simp_all

lemma re_sub_dot_join: "re_sub_dot repl s = join repl (split_on dot s)"
proof (induction s)
  case Nil
  show ?case by (simp add: re_sub_dot_def)
next
  case (Cons x xs)
  show ?case
  proof (cases "x = dot")
    case True
    with Cons show ?thesis
      by (simp add: re_sub_dot_def join_Cons split_on_nonempty)
  next
    case False
    obtain w ws where sp: "split_on dot xs = w # ws"
      using split_on_nonempty [of dot xs] by (cases "split_on dot xs") auto
    with False Cons show ?thesis
      by (simp add: re_sub_dot_def join_head)
  qed
qed

lemma join_prefixed:
  "xs \<noteq> [] \<Longrightarrow> join sep (map (\<lambda>l. p @ l) xs) = p @ join (sep @ p) xs"
proof (induction xs)
  case Nil
  then show ?case by simp
next
  case (Cons x xs)
  show ?case
  proof (cases xs)
    case Nil
    then show ?thesis by simp
  next
    case (Cons y ys)
    with Cons.IH show ?thesis by simp
  qed
qed

lemma basedn_of_join: "basedn_of d = U ''dc='' @ join (U '',DC='') (split_on dot d)"
  by (simp add: basedn_of_def re_sub_dot_join)

lemma basedn_spec_join: "basedn_spec d = U ''DC='' @ join (U '',DC='') (split_on dot d)"
proof -
  have "U '','' @ U ''DC='' = U '',DC=''" by (simp add: U_def)
  then show ?thesis
    by (simp add: basedn_spec_def join_prefixed [OF split_on_nonempty])
qed

lemma init_Inr_fields:
  assumes "init gp en bp name attrslist = Inr self"
  shows "\<exists>label more. split_on dot (domain self) = label # more \<and>
           userdn self = U ''OU=Users,OU='' @ label @ U '','' @ basedn_of (domain self) \<and>
           groupdn self = userdn self \<and>
           builtin self = U ''CN=Builtin,'' @ basedn_of (domain self) \<and>
           attrlist self = map bp attrslist \<and>
           bp (U ''cn'') \<in> set (attrlist self) \<and> bp (U ''unicodePwd'') \<in> set (attrlist self)"
  using assms
  by (auto simp add: init_def bind_err_def first_label_def Let_def
      split: sum.splits list.splits if_splits)

lemma containers_differ: "U ''CN=Builtin,'' @ b \<noteq> U ''OU=Users,OU='' @ l"
  by (simp add: U_def)

lemma build_groupdn_map:
  "build_groupdn self groups =
     map (\<lambda>g. if g \<in> set AD_BUILTIN_GROUPS then U ''cn='' @ g @ U '','' @ builtin self
              else U ''cn='' @ g @ U '','' @ groupdn self) groups"
  by (induction groups) simp_all


subsection \<open>Group references\<close>

text \<open>
  C1. For a backend that the constructor returned, \<^verbatim>\<open>_build_groupdn\<close> maps every
  group name to \<^verbatim>\<open>cn=<name>,CN=Builtin,<base DN>\<close> when the name is a member of
  \<open>AD_BUILTIN_GROUPS\<close> and to \<^verbatim>\<open>cn=<name>,<group container>\<close> otherwise; the
  result lies under the builtin container if and only if the name is in the list, and
  \<^verbatim>\<open>add_to_groups\<close> and \<^verbatim>\<open>del_from_groups\<close> hand exactly these names to the
  inherited methods.
\<close>
theorem build_groupdn_classifies:
  assumes "init gp en bp name attrslist = Inr self"
  shows "build_groupdn self groups =
           map (\<lambda>g. if g \<in> set AD_BUILTIN_GROUPS
                    then U ''cn='' @ g @ U '','' @ U ''CN=Builtin,'' @ basedn_of (domain self)
                    else U ''cn='' @ g @ U '','' @ groupdn self) groups
         \<and> (\<forall>g. (build_groupdn self [g] = [U ''cn='' @ g @ U '','' @ builtin self])
                 = (g \<in> set AD_BUILTIN_GROUPS))
         \<and> (\<forall>g. (build_groupdn self [g] = [U ''cn='' @ g @ U '','' @ groupdn self])
                 = (g \<notin> set AD_BUILTIN_GROUPS))
         \<and> add_to_groups E self username groups tr =
             perform E (SuperAddToGroups username (build_groupdn self groups)) tr
         \<and> del_from_groups E self username groups tr =
             perform E (SuperDelFromGroups username (build_groupdn self groups)) tr"
proof -
  from init_Inr_fields [OF assms] obtain label more where
    u: "userdn self = U ''OU=Users,OU='' @ label @ U '','' @ basedn_of (domain self)" and
    g: "groupdn self = userdn self" and
    b: "builtin self = U ''CN=Builtin,'' @ basedn_of (domain self)"
    by blast
  have ne: "builtin self \<noteq> groupdn self"
    unfolding g u b by (rule containers_differ)
  have m: "build_groupdn self groups =
           map (\<lambda>g. if g \<in> set AD_BUILTIN_GROUPS
                    then U ''cn='' @ g @ U '','' @ U ''CN=Builtin,'' @ basedn_of (domain self)
                    else U ''cn='' @ g @ U '','' @ groupdn self) groups"
    by (simp add: build_groupdn_map b)
  have i1: "\<forall>g. (build_groupdn self [g] = [U ''cn='' @ g @ U '','' @ builtin self])
                 = (g \<in> set AD_BUILTIN_GROUPS)"
    using ne by auto
  have i2: "\<forall>g. (build_groupdn self [g] = [U ''cn='' @ g @ U '','' @ groupdn self])
                 = (g \<notin> set AD_BUILTIN_GROUPS)"
    using ne by auto
  have a: "add_to_groups E self username groups tr =
             perform E (SuperAddToGroups username (build_groupdn self groups)) tr"
    by (simp add: add_to_groups_def)
  have d: "del_from_groups E self username groups tr =
             perform E (SuperDelFromGroups username (build_groupdn self groups)) tr"
    by (simp add: del_from_groups_def)
  from m i1 i2 a d show ?thesis by blast
qed

theorem build_groupdn_classifies_witness:
  "init example_config (\<lambda>v. None) (\<lambda>s. s) (U ''ad'') [U ''cn'', U ''unicodePwd'']
     = Inr example_backend
   \<and> build_groupdn example_backend [U ''Users'', U ''staff''] =
       [U ''cn=Users,CN=Builtin,dc=dc,DC=ldapcherry,DC=org'',
        U ''cn=staff,OU=Users,OU=dc,dc=dc,DC=ldapcherry,DC=org'']"
proof -
  have m1: "U ''Users'' \<in> set AD_BUILTIN_GROUPS"
    by (simp add: AD_BUILTIN_GROUPS_def U_def)
  have m2: "U ''staff'' \<notin> set AD_BUILTIN_GROUPS"
    by (simp add: AD_BUILTIN_GROUPS_def U_def)
  have d: "basedn_of (domain example_backend) = U ''dc=dc,DC=ldapcherry,DC=org''"
    by (simp add: example_backend_def basedn_of_def re_sub_dot_def dot_def U_def)
  have g: "groupdn example_backend = U ''OU=Users,OU=dc,dc=dc,DC=ldapcherry,DC=org''"
    by (simp add: example_backend_def)
  from build_groupdn_classifies [OF init_example, of "[U ''Users'', U ''staff'']"]
  have "build_groupdn example_backend [U ''Users'', U ''staff''] =
          [U ''cn='' @ U ''Users'' @ U '','' @ U ''CN=Builtin,'' @ U ''dc=dc,DC=ldapcherry,DC=org'',
           U ''cn='' @ U ''staff'' @ U '','' @ U ''OU=Users,OU=dc,dc=dc,DC=ldapcherry,DC=org'']"
    by (simp add: m1 m2 d g)
  then show ?thesis
    using init_example by (simp add: U_def)
qed

subsection \<open>Required attributes\<close>

text \<open>
  C3. With a conversion \<^verbatim>\<open>_byte_p2\<close> that is injective and a \<^verbatim>\<open>get_param\<close> that never
  raises \<open>MissingAttr\<close> itself: when the attribute list omits \<^verbatim>\<open>cn\<close> or
  \<^verbatim>\<open>unicodePwd\<close> the constructor returns no backend, and raises \<open>MissingAttr\<close>
  whenever the same configuration with the two attributes added is accepted; when both
  are present it does not raise \<open>MissingAttr\<close>, and succeeds whenever the
  configuration is accepted; the constructor causes no event.
\<close>
theorem init_requires_cn_and_unicodePwd:
  assumes "inj bp" and "\<forall>n d. gp n d \<noteq> Inl MissingAttr"
  shows "(U ''cn'' \<notin> set attrslist \<or> U ''unicodePwd'' \<notin> set attrslist \<longrightarrow>
            (\<forall>self. init gp en bp name attrslist \<noteq> Inr self)
            \<and> (init gp en bp name (U ''cn'' # U ''unicodePwd'' # attrslist) = Inr self0 \<longrightarrow>
                 init gp en bp name attrslist = Inl MissingAttr))
         \<and> (U ''cn'' \<in> set attrslist \<and> U ''unicodePwd'' \<in> set attrslist \<longrightarrow>
              init gp en bp name attrslist \<noteq> Inl MissingAttr
              \<and> (init gp en bp name (U ''cn'' # U ''unicodePwd'' # attrslist) = Inr self0 \<longrightarrow>
                   init gp en bp name attrslist = Inr (self0 \<lparr> attrlist := map bp attrslist \<rparr>)))
         \<and> fst (init_io gp en bp name attrslist tr) = tr"
proof -
  have mem: "\<And>a. (bp a \<in> bp ` set attrslist) = (a \<in> set attrslist)"
    using assms(1) by (simp add: inj_image_mem_iff)
  have as: "\<And>v. as_str v \<noteq> Inl MissingAttr"
    by (case_tac v) simp_all
  have fl: "\<And>d. first_label d \<noteq> Inl MissingAttr"
    by (simp add: first_label_def split: list.splits)
  show ?thesis
    using assms(2) as fl
    by (auto simp add: init_def init_io_def lift_io_def bind_err_def Let_def mem
        split: sum.splits)
qed

theorem init_requires_cn_and_unicodePwd_witness:
  "inj (\<lambda>s::pystr. s)
   \<and> (\<forall>n d. example_config n d \<noteq> Inl MissingAttr)
   \<and> U ''unicodePwd'' \<notin> set [U ''cn'']
   \<and> init example_config (\<lambda>v. None) (\<lambda>s. s) (U ''ad'') [U ''cn''] = Inl MissingAttr
   \<and> init example_config (\<lambda>v. None) (\<lambda>s. s) (U ''ad'') [U ''cn'', U ''unicodePwd'']
       \<noteq> Inl MissingAttr"
proof -
  have i: "inj (\<lambda>s::pystr. s)" by (simp add: inj_def)
  have g: "\<forall>n d. example_config n d \<noteq> Inl MissingAttr"
    by (simp add: example_config_def split: option.splits)
  have n: "U ''unicodePwd'' \<notin> set [U ''cn'']" by (simp add: U_def)
  have ok: "init example_config (\<lambda>v. None) (\<lambda>s. s) (U ''ad'')
              (U ''cn'' # U ''unicodePwd'' # [U ''cn'']) =
            Inr (example_backend \<lparr> attrlist := [U ''cn'', U ''unicodePwd'', U ''cn''] \<rparr>)"
    by (simp add: init_def example_config_def example_backend_def bind_err_def getenv_def
      basedn_of_def re_sub_dot_def first_label_def dot_def U_def Let_def)
  from init_requires_cn_and_unicodePwd [OF i g, where attrslist = "[U ''cn'']"
      and en = "\<lambda>v. None" and name = "U ''ad''"
      and ?self0.0 = "example_backend \<lparr> attrlist := [U ''cn'', U ''unicodePwd'', U ''cn''] \<rparr>"] n ok
  have "init example_config (\<lambda>v. None) (\<lambda>s. s) (U ''ad'') [U ''cn''] = Inl MissingAttr"
    by blast
  then show ?thesis using i g n init_example by simp
qed

subsection \<open>Distinguished names derived from the domain\<close>

lemma split_on_append_sep: "split_on c (a @ c # b) = split_on c a @ split_on c b"
proof (induction a)
  case Nil
  show ?case by simp
next
  case (Cons x a)
  obtain w ws where sp: "split_on c a = w # ws"
    using split_on_nonempty [of c a] by (cases "split_on c a") auto
  with Cons show ?case by simp
qed

lemma dn_norm_append: "dn_norm (a @ comma # b) = dn_norm a @ dn_norm b"
  by (simp add: dn_norm_def split_on_append_sep)

lemma same_dn_under:
  "same_dn x y \<Longrightarrow> same_dn (a @ U '','' @ x) (a @ U '','' @ y)"
proof -
  have c: "U '','' = [comma]" by (simp add: U_def comma_def)
  show "same_dn x y \<Longrightarrow> same_dn (a @ U '','' @ x) (a @ U '','' @ y)"
    by (simp add: same_dn_def c dn_norm_append)
qed

lemma same_dn_dc: "same_dn (U ''dc='' @ r) (U ''DC='' @ r)"
proof -
  obtain w ws where sp: "split_on 44 r = w # ws"
    using split_on_nonempty [of 44 r] by (cases "split_on 44 r") auto
  show ?thesis
    by (simp add: same_dn_def dn_norm_def comma_def U_def sp rdn_of_def equals_sign_def
        ascii_upper_def)
qed

lemma same_dn_distinguishes:
  "\<not> same_dn (U ''dc=a'') (U ''dc=b'')" "\<not> same_dn (U ''dc=a'') (U ''ou=a'')"
  "\<not> same_dn (U ''dc=a,dc=b'') (U ''dc=a'')" "same_dn (U ''cn=Users'') (U ''CN=Users'')"
  by (simp_all add: same_dn_def dn_norm_def comma_def U_def rdn_of_def equals_sign_def
        ascii_upper_def)

lemma init_domain:
  assumes "init gp en bp name attrslist = Inr self"
  shows "gp (U ''domain'') None = Inr (PStr (domain self))"
  using assms
  by (auto simp add: init_def bind_err_def Let_def split: sum.splits if_splits elim!: as_str.elims)

text \<open>
  C7. For every backend that the constructor returns, with \<open>d\<close> the configured
  domain: the base DN is the labels of \<open>d\<close>, split at the full stops, joined as
  \<^verbatim>\<open>DC=\<close> segments. The string that line 107 builds writes the attribute type of
  the first segment as \<^verbatim>\<open>dc\<close> and of the others as \<^verbatim>\<open>DC\<close>; attribute types are
  compared without regard to case, so it is the same distinguished name as the join of
  \<^verbatim>\<open>DC=\<close> segments. The user container and the group container are
  \<^verbatim>\<open>OU=Users,OU=<first label>,<base DN>\<close> and the builtin container is
  \<^verbatim>\<open>CN=Builtin,<base DN>\<close>.
\<close>

theorem init_containers:
  assumes "init gp en bp name attrslist = Inr self"
  shows "\<exists>d label more.
           gp (U ''domain'') None = Inr (PStr d)
           \<and> domain self = d
           \<and> split_on dot d = label # more
           \<and> basedn_spec d = join (U '','') (map (\<lambda>l. U ''DC='' @ l) (label # more))
           \<and> basedn_of d = U ''dc='' @ join (U '',DC='') (label # more)
           \<and> same_dn (basedn_of d) (basedn_spec d)
           \<and> userdn self = U ''OU=Users,OU='' @ label @ U '','' @ basedn_of d
           \<and> same_dn (userdn self) (U ''OU=Users,OU='' @ label @ U '','' @ basedn_spec d)
           \<and> groupdn self = userdn self
           \<and> builtin self = U ''CN=Builtin,'' @ basedn_of d
           \<and> same_dn (builtin self) (U ''CN=Builtin,'' @ basedn_spec d)"
proof -
  from init_Inr_fields [OF assms] obtain label more where
    sp: "split_on dot (domain self) = label # more" and
    u: "userdn self = U ''OU=Users,OU='' @ label @ U '','' @ basedn_of (domain self)" and
    g: "groupdn self = userdn self" and
    b: "builtin self = U ''CN=Builtin,'' @ basedn_of (domain self)"
    by blast
  have d: "gp (U ''domain'') None = Inr (PStr (domain self))"
    by (rule init_domain [OF assms])
  have bs: "basedn_spec (domain self) = join (U '','') (map (\<lambda>l. U ''DC='' @ l) (label # more))"
    by (simp only: basedn_spec_def sp)
  have bo: "basedn_of (domain self) = U ''dc='' @ join (U '',DC='') (label # more)"
    using basedn_of_join [of "domain self"] by (simp only: sp)
  have same: "same_dn (basedn_of (domain self)) (basedn_spec (domain self))"
    unfolding basedn_of_join basedn_spec_join by (rule same_dn_dc)
  have su: "same_dn (userdn self)
       (U ''OU=Users,OU='' @ label @ U '','' @ basedn_spec (domain self))"
    using same_dn_under [OF same, of "U ''OU=Users,OU='' @ label"] by (simp add: u)
  have cb: "U ''CN=Builtin,'' = U ''CN=Builtin'' @ U '',''" by (simp add: U_def)
  have sb: "same_dn (builtin self) (U ''CN=Builtin,'' @ basedn_spec (domain self))"
    using same_dn_under [OF same, of "U ''CN=Builtin''"] by (simp add: b cb)
  from d sp bs bo same u su g b sb show ?thesis by blast
qed

theorem init_containers_witness:
  "init example_config (\<lambda>v. None) (\<lambda>s. s) (U ''ad'') [U ''cn'', U ''unicodePwd'']
     = Inr example_backend
   \<and> example_config (U ''domain'') None = Inr (PStr (U ''dc.ldapcherry.org''))
   \<and> userdn example_backend = U ''OU=Users,OU=dc,dc=dc,DC=ldapcherry,DC=org''
   \<and> same_dn (userdn example_backend) (U ''OU=Users,OU=dc,DC=dc,DC=ldapcherry,DC=org'')
   \<and> builtin example_backend = U ''CN=Builtin,dc=dc,DC=ldapcherry,DC=org''
   \<and> same_dn (builtin example_backend) (U ''CN=Builtin,DC=dc,DC=ldapcherry,DC=org'')
   \<and> \<not> same_dn (builtin example_backend) (userdn example_backend)"
proof -
  have c: "example_config (U ''domain'') None = Inr (PStr (U ''dc.ldapcherry.org''))"
    by (simp add: example_config_def U_def)
  have s: "split_on dot (U ''dc.ldapcherry.org'') = [U ''dc'', U ''ldapcherry'', U ''org'']"
    by (simp add: dot_def U_def)
  have bo: "basedn_of (U ''dc.ldapcherry.org'') = U ''dc=dc,DC=ldapcherry,DC=org''"
    by (simp add: basedn_of_def re_sub_dot_def dot_def U_def)
  have bs: "basedn_spec (U ''dc.ldapcherry.org'') = U ''DC=dc,DC=ldapcherry,DC=org''"
    by (simp add: basedn_spec_def s) (simp add: U_def)
  from init_containers [OF init_example] c obtain label more where
    l: "split_on dot (U ''dc.ldapcherry.org'') = label # more" and
    u: "userdn example_backend = U ''OU=Users,OU='' @ label @ U '','' @ basedn_of (U ''dc.ldapcherry.org'')" and
    su: "same_dn (userdn example_backend)
          (U ''OU=Users,OU='' @ label @ U '','' @ basedn_spec (U ''dc.ldapcherry.org''))" and
    b: "builtin example_backend = U ''CN=Builtin,'' @ basedn_of (U ''dc.ldapcherry.org'')" and
    sb: "same_dn (builtin example_backend) (U ''CN=Builtin,'' @ basedn_spec (U ''dc.ldapcherry.org''))"
    by auto
  from l s have lab: "label = U ''dc''" by simp
  have e1: "U ''OU=Users,OU='' @ U ''dc'' @ U '','' @ U ''dc=dc,DC=ldapcherry,DC=org''
            = U ''OU=Users,OU=dc,dc=dc,DC=ldapcherry,DC=org''"
    and e2: "U ''OU=Users,OU='' @ U ''dc'' @ U '','' @ U ''DC=dc,DC=ldapcherry,DC=org''
            = U ''OU=Users,OU=dc,DC=dc,DC=ldapcherry,DC=org''"
    and e3: "U ''CN=Builtin,'' @ U ''dc=dc,DC=ldapcherry,DC=org''
            = U ''CN=Builtin,dc=dc,DC=ldapcherry,DC=org''"
    and e4: "U ''CN=Builtin,'' @ U ''DC=dc,DC=ldapcherry,DC=org''
            = U ''CN=Builtin,DC=dc,DC=ldapcherry,DC=org''"
    by (simp_all add: U_def)
  have n: "\<not> same_dn (U ''CN=Builtin,dc=dc,DC=ldapcherry,DC=org'')
              (U ''OU=Users,OU=dc,dc=dc,DC=ldapcherry,DC=org'')"
    by (simp add: same_dn_def dn_norm_def comma_def U_def rdn_of_def equals_sign_def
        ascii_upper_def)
  from u su b sb n show ?thesis
    unfolding lab bo bs e1 e2 e3 e4 using init_example c by simp
qed

lemmas io_defs = bind_io_def return_io_def raise_io_def lift_io_def catch_io_def
  perform_def unbind_s_def search_s_def get_user_def

lemma keys_distinct:
  "U ''cn'' \<noteq> U ''unicodePwd''" "U ''cn'' \<noteq> U ''userPrincipalName''"
  "U ''cn'' \<noteq> U ''displayName''" "U ''sAMAccountName'' \<noteq> U ''unicodePwd''"
  "U ''unicodePwd'' \<noteq> U ''userPrincipalName''" "U ''unicodePwd'' \<noteq> U ''displayName''"
  "U ''displayName'' \<noteq> U ''userPrincipalName''"
  by (simp_all add: U_def)

subsection \<open>Authentication\<close>

text \<open>
  C5. \<^verbatim>\<open>auth\<close> opens a session with \<^verbatim>\<open>_connect\<close> and binds it as
  \<^verbatim>\<open><username>@<domain>\<close>, converted by \<^verbatim>\<open>_byte_p2\<close>. When the bind returns, the
  session is closed and the result is \<^verbatim>\<open>True\<close>; when it raises
  \<open>INVALID_CREDENTIALS\<close>, the session is closed and the result is \<^verbatim>\<open>False\<close>; any
  other exception of the bind, and any exception of the connection, leaves the method
  as that exception.
\<close>

theorem auth_outcomes:
  "(\<forall>e. raises E tr Connect = Some e \<longrightarrow>
       auth E self username password tr = (tr @ [(Connect, Some e)], Inl e))
   \<and> (raises E tr Connect = None \<longrightarrow>
       (let c = SimpleBind (byte_p2 E (username @ U ''@'' @ domain self)) (byte_p2 E password);
            tr1 = tr @ [(Connect, None)]
        in (raises E tr1 c = None \<longrightarrow>
              auth E self username password tr = (tr1 @ [(c, None), (Unbind, None)], Inr True))
         \<and> (raises E tr1 c = Some INVALID_CREDENTIALS \<longrightarrow>
              auth E self username password tr =
                (tr1 @ [(c, Some INVALID_CREDENTIALS), (Unbind, None)], Inr False))
         \<and> (\<forall>e. raises E tr1 c = Some e \<and> e \<noteq> INVALID_CREDENTIALS \<longrightarrow>
              auth E self username password tr = (tr1 @ [(c, Some e)], Inl e))))"
  by (simp add: auth_def io_defs Let_def)

theorem auth_outcomes_witness:
  "auth quiet example_backend (U ''alice'') (U ''pw'') [] =
     ([(Connect, None), (SimpleBind (U ''alice@dc.ldapcherry.org'') (U ''pw''), None),
       (Unbind, None)], Inr True)
   \<and> auth rejecting example_backend (U ''alice'') (U ''pw'') [] =
     ([(Connect, None),
       (SimpleBind (U ''alice@dc.ldapcherry.org'') (U ''pw''), Some INVALID_CREDENTIALS),
       (Unbind, None)], Inr False)"
proof -
  have d: "U ''alice'' @ U ''@'' @ domain example_backend = U ''alice@dc.ldapcherry.org''"
    by (simp add: example_backend_def U_def)
  from auth_outcomes [of quiet "[]" example_backend "U ''alice''" "U ''pw''"]
  have q: "auth quiet example_backend (U ''alice'') (U ''pw'') [] =
     ([(Connect, None), (SimpleBind (U ''alice@dc.ldapcherry.org'') (U ''pw''), None),
       (Unbind, None)], Inr True)"
    by (simp add: quiet_def d)
  from auth_outcomes [of rejecting "[]" example_backend "U ''alice''" "U ''pw''"]
  have r: "auth rejecting example_backend (U ''alice'') (U ''pw'') [] =
     ([(Connect, None),
       (SimpleBind (U ''alice@dc.ldapcherry.org'') (U ''pw''), Some INVALID_CREDENTIALS),
       (Unbind, None)], Inr False)"
    by (simp add: rejecting_def quiet_def d)
  from q r show ?thesis by simp
qed

subsection \<open>The caller's attribute mapping\<close>

text \<open>
  C10. \<^verbatim>\<open>add_user\<close>, given a mapping with the keys \<^verbatim>\<open>unicodePwd\<close>,
  \<^verbatim>\<open>sAMAccountName\<close> and \<^verbatim>\<open>cn\<close>, leaves the caller's mapping without
  \<^verbatim>\<open>unicodePwd\<close>, with \<^verbatim>\<open>userPrincipalName\<close> added and \<^verbatim>\<open>displayName\<close> set to the
  value of \<^verbatim>\<open>cn\<close>, whatever happens afterwards; \<^verbatim>\<open>set_attrs\<close> removes
  \<^verbatim>\<open>unicodePwd\<close> when it is present and otherwise leaves the mapping alone. In both
  cases the mapping after the call differs from the one passed in.
\<close>

theorem caller_mapping_is_changed:
  "(attrs (U ''unicodePwd'') = Some password \<and> attrs (U ''sAMAccountName'') = Some name
      \<and> attrs (U ''cn'') = Some cn \<longrightarrow>
      fst (add_user E self attrs tr) =
        attrs (U ''unicodePwd'' := None,
               U ''userPrincipalName'' \<mapsto> name @ U ''@'' @ domain self,
               U ''displayName'' \<mapsto> cn)
      \<and> fst (add_user E self attrs tr) \<noteq> attrs)
   \<and> (attrs (U ''unicodePwd'') = Some password \<longrightarrow>
        fst (set_attrs E self username attrs tr) = attrs (U ''unicodePwd'' := None)
        \<and> fst (set_attrs E self username attrs tr) \<noteq> attrs)
   \<and> (attrs (U ''unicodePwd'') = None \<longrightarrow> fst (set_attrs E self username attrs tr) = attrs)"
proof -
  have n1: "attrs (U ''unicodePwd'' := None, U ''userPrincipalName'' \<mapsto> x,
               U ''displayName'' \<mapsto> y) \<noteq> attrs"
    if "attrs (U ''unicodePwd'') = Some password" for x y
  proof
    assume "attrs (U ''unicodePwd'' := None, U ''userPrincipalName'' \<mapsto> x,
               U ''displayName'' \<mapsto> y) = attrs"
    then have "(attrs (U ''unicodePwd'' := None, U ''userPrincipalName'' \<mapsto> x,
               U ''displayName'' \<mapsto> y)) (U ''unicodePwd'') = attrs (U ''unicodePwd'')"
      by simp
    with that show False by (simp add: keys_distinct)
  qed
  have n2: "attrs (U ''unicodePwd'' := None) \<noteq> attrs"
    if "attrs (U ''unicodePwd'') = Some password"
  proof
    assume "attrs (U ''unicodePwd'' := None) = attrs"
    then have "(attrs (U ''unicodePwd'' := None)) (U ''unicodePwd'') = attrs (U ''unicodePwd'')"
      by simp
    with that show False by simp
  qed
  show ?thesis
    using n1 n2 by (simp add: add_user_def set_attrs_def Let_def keys_distinct)
qed

theorem caller_mapping_is_changed_witness:
  "example_attrs (U ''unicodePwd'') = Some (U ''pw'')
   \<and> fst (add_user quiet example_backend example_attrs []) (U ''unicodePwd'') = None
   \<and> fst (add_user quiet example_backend example_attrs []) (U ''userPrincipalName'')
       = Some (U ''alice@dc.ldapcherry.org'')
   \<and> fst (add_user quiet example_backend example_attrs []) (U ''displayName'')
       = Some (U ''Alice Liddell'')
   \<and> fst (set_attrs quiet example_backend (U ''alice'') example_attrs []) (U ''unicodePwd'') = None"
proof -
  have a: "example_attrs (U ''unicodePwd'') = Some (U ''pw'')"
          "example_attrs (U ''sAMAccountName'') = Some (U ''alice'')"
          "example_attrs (U ''cn'') = Some (U ''Alice Liddell'')"
    by (simp_all add: example_attrs_def U_def)
  have d: "U ''alice'' @ U ''@'' @ domain example_backend = U ''alice@dc.ldapcherry.org''"
    by (simp add: example_backend_def U_def)
  from caller_mapping_is_changed [of example_attrs "U ''pw''" "U ''alice''" "U ''Alice Liddell''"
      quiet example_backend "[]" "U ''alice''"] a
  have 1: "fst (add_user quiet example_backend example_attrs []) =
        example_attrs (U ''unicodePwd'' := None,
               U ''userPrincipalName'' \<mapsto> U ''alice@dc.ldapcherry.org'',
               U ''displayName'' \<mapsto> U ''Alice Liddell'')"
    and 2: "fst (set_attrs quiet example_backend (U ''alice'') example_attrs []) =
        example_attrs (U ''unicodePwd'' := None)"
    by (simp_all add: d)
  show ?thesis
    unfolding 1 2 using a(1) by (simp add: keys_distinct keys_distinct [symmetric])
qed


subsection \<open>Facts about the sessions of \<open>add_user\<close> and \<open>_set_password\<close>\<close>


lemma add_user_unfold:
  assumes "attrs (U ''unicodePwd'') = Some password" "attrs (U ''sAMAccountName'') = Some name"
    "attrs (U ''cn'') = Some cn"
  shows "snd (add_user E self attrs tr) =
     add_user_session E self
       (attrs (U ''unicodePwd'' := None,
               U ''userPrincipalName'' \<mapsto> name @ U ''@'' @ domain self,
               U ''displayName'' \<mapsto> cn)) password tr"
  using assms by (simp add: add_user_def Let_def keys_distinct)

lemma add_user_session_calls:
  assumes "a (U ''cn'') = Some cn" "utf_16_le (dquote @ password @ dquote) = Inr w"
  shows "\<exists>new. fst (add_user_session E self a password tr) = tr @ new
     \<and> new \<noteq> []
     \<and> map fst new = take (length new)
         [SuperAddUser a, Bind,
          Modify (byte_p2 E (U ''CN='' @ cn @ U '','' @ userdn self))
            [(MOD_REPLACE, U ''unicodePwd'', [w])],
          Modify (byte_p2 E (U ''CN='' @ cn @ U '','' @ userdn self))
            [(MOD_REPLACE, U ''UserAccountControl'', [B ''512''])],
          Unbind]
     \<and> (snd (add_user_session E self a password tr) = Inr () \<longrightarrow> length new = 5)
     \<and> (\<forall>e. snd (add_user_session E self a password tr) = Inl e \<longrightarrow> snd (last new) = Some e)"
  using assms
  by (simp add: add_user_session_def io_defs lookup_def Let_def split: option.splits)


lemma add_user_session_quiet:
  assumes "a (U ''cn'') = Some cn" "utf_16_le (dquote @ password @ dquote) = Inr w"
    "\<forall>h c. raises E h c = None"
  shows "add_user_session E self a password tr =
     (tr @ [(SuperAddUser a, None), (Bind, None),
          (Modify (byte_p2 E (U ''CN='' @ cn @ U '','' @ userdn self))
            [(MOD_REPLACE, U ''unicodePwd'', [w])], None),
          (Modify (byte_p2 E (U ''CN='' @ cn @ U '','' @ userdn self))
            [(MOD_REPLACE, U ''UserAccountControl'', [B ''512''])], None),
          (Unbind, None)], Inr ())"
  using assms
  by (simp add: add_user_session_def io_defs lookup_def Let_def)

lemma add_user_session_refused:
  assumes "a (U ''cn'') = Some cn" "utf_16_le (dquote @ password @ dquote) = Inr w"
    "raises E tr (SuperAddUser a) = None"
    "raises E (tr @ [(SuperAddUser a, None)]) Bind = None"
    "raises E (tr @ [(SuperAddUser a, None), (Bind, None)])
       (Modify (byte_p2 E (U ''CN='' @ cn @ U '','' @ userdn self))
            [(MOD_REPLACE, U ''unicodePwd'', [w])]) = Some e"
  shows "add_user_session E self a password tr =
     (tr @ [(SuperAddUser a, None), (Bind, None),
          (Modify (byte_p2 E (U ''CN='' @ cn @ U '','' @ userdn self))
            [(MOD_REPLACE, U ''unicodePwd'', [w])], Some e)], Inl e)"
  using assms
  by (simp add: add_user_session_def io_defs lookup_def Let_def)

lemma set_password_calls:
  assumes "utf_16_le (dquote @ password @ dquote) = Inr w"
  shows "\<exists>new. fst (set_password E self name password by_cn tr) = tr @ new
     \<and> new \<noteq> []
     \<and> map fst new = take (length new)
         [Bind,
          Modify (if by_cn then byte_p2 E (U ''CN='' @ name @ U '','' @ userdn self)
                  else byte_p2 E name)
            [(MOD_REPLACE, U ''unicodePwd'', [w])]]
     \<and> (snd (set_password E self name password by_cn tr) = Inr () \<longrightarrow>
           length new = 2 \<and> snd ` set new = {None})
     \<and> (\<forall>e. snd (set_password E self name password by_cn tr) = Inl e \<longrightarrow> snd (last new) = Some e)"
  using assms
  by (simp add: set_password_def io_defs Let_def split: option.splits)

lemma set_password_unencodable:
  assumes "utf_16_le (dquote @ password @ dquote) = Inl e"
  shows "set_password E self name password by_cn tr = (tr, Inl e)"
  using assms
  by (simp add: set_password_def io_defs Let_def)

lemma utf_16_le_bmp:
  "\<forall>c \<in> set s. c < 0xD800 \<Longrightarrow>
     utf_16_le s = Inr (concat (map (\<lambda>c. [c mod 256, c div 256]) s))"
  by (induction s) (simp_all add: utf_16_le_char_def utf_16_le_unit_def bind_err_def)

lemma utf_16_le_example:
  "utf_16_le (dquote @ U ''pw'' @ dquote) = Inr [0x22, 0, 0x70, 0, 0x77, 0, 0x22, 0]"
  by (simp add: dquote_def U_def utf_16_le_char_def utf_16_le_unit_def bind_err_def)

lemma uac_value:
  "decimal (B ''512'') = NORMAL_ACCOUNT \<and> NORMAL_ACCOUNT AND ACCOUNTDISABLE = 0"
  by (simp add: decimal_def B_def NORMAL_ACCOUNT_def ACCOUNTDISABLE_def)


lemma set_password_quiet:
  assumes "utf_16_le (dquote @ password @ dquote) = Inr w" "\<forall>h c. raises E h c = None"
  shows "set_password E self name password by_cn tr =
     (tr @ [(Bind, None),
            (Modify (if by_cn then byte_p2 E (U ''CN='' @ name @ U '','' @ userdn self)
                     else byte_p2 E name)
               [(MOD_REPLACE, U ''unicodePwd'', [w])], None)], Inr ())"
  using assms
  by (simp add: set_password_def io_defs Let_def)

lemma no_delete_in_prefix:
  assumes "map fst new = take n cs" "\<forall>d. Delete d \<notin> set cs"
  shows "\<forall>d. Delete d \<notin> fst ` set new"
proof -
  have "fst ` set new = set (map fst new)" by simp
  also have "\<dots> \<subseteq> set cs" unfolding assms(1) by (rule set_take_subset)
  finally show ?thesis using assms(2) by blast
qed

lemma quiet_never_raises: "\<forall>h c. raises quiet h c = None"
  by (simp add: quiet_def)

lemma example_attrs_keys:
  "example_attrs (U ''unicodePwd'') = Some (U ''pw'')"
  "example_attrs (U ''sAMAccountName'') = Some (U ''alice'')"
  "example_attrs (U ''cn'') = Some (U ''Alice Liddell'')"
  by (simp_all add: example_attrs_def U_def)

subsection \<open>Creation of a user\<close>

text \<open>
  C2. For a mapping with the keys \<^verbatim>\<open>unicodePwd\<close>, \<^verbatim>\<open>sAMAccountName\<close> and \<^verbatim>\<open>cn\<close>
  and a password that can be encoded, \<^verbatim>\<open>add_user\<close> hands to the inherited
  \<^verbatim>\<open>add_user\<close> a mapping in which \<^verbatim>\<open>userPrincipalName\<close> is
  \<^verbatim>\<open><sAMAccountName>@<domain>\<close>. The calls it makes are an initial segment of: the
  inherited \<^verbatim>\<open>add_user\<close>, the bind, the replacement of \<^verbatim>\<open>unicodePwd\<close> by the
  encoded password, the replacement of \<^verbatim>\<open>UserAccountControl\<close> by \<^verbatim>\<open>b'512'\<close>, the
  unbind; the segment ends at the first call that raises and is the whole sequence when
  the method returns. No call deletes an entry: when the first modification raises, the
  method is left with that exception right after it. The value 512 is
  \<open>NORMAL_ACCOUNT\<close>, in which the bit \<open>ACCOUNTDISABLE\<close> is not set.
\<close>
theorem add_user_sequence:
  assumes "attrs (U ''unicodePwd'') = Some password"
    and "attrs (U ''sAMAccountName'') = Some name"
    and "attrs (U ''cn'') = Some cn"
    and "utf_16_le (dquote @ password @ dquote) = Inr w"
  shows "let a = attrs (U ''unicodePwd'' := None,
                      U ''userPrincipalName'' \<mapsto> name @ U ''@'' @ domain self,
                      U ''displayName'' \<mapsto> cn);
             dn = byte_p2 E (U ''CN='' @ cn @ U '','' @ userdn self);
             pw = Modify dn [(MOD_REPLACE, U ''unicodePwd'', [w])];
             uac = Modify dn [(MOD_REPLACE, U ''UserAccountControl'', [B ''512''])]
         in a (U ''userPrincipalName'') = Some (name @ U ''@'' @ domain self)
          \<and> (\<exists>new. fst (snd (add_user E self attrs tr)) = tr @ new
                \<and> new \<noteq> []
                \<and> map fst new = take (length new) [SuperAddUser a, Bind, pw, uac, Unbind]
                \<and> (snd (snd (add_user E self attrs tr)) = Inr () \<longrightarrow> length new = 5)
                \<and> (\<forall>e. snd (snd (add_user E self attrs tr)) = Inl e \<longrightarrow> snd (last new) = Some e)
                \<and> (\<forall>d. Delete d \<notin> fst ` set new))
          \<and> ((\<forall>h c. raises E h c = None) \<longrightarrow>
                snd (add_user E self attrs tr) =
                  (tr @ [(SuperAddUser a, None), (Bind, None), (pw, None), (uac, None),
                         (Unbind, None)], Inr ()))
          \<and> (\<forall>e. raises E tr (SuperAddUser a) = None
                \<and> raises E (tr @ [(SuperAddUser a, None)]) Bind = None
                \<and> raises E (tr @ [(SuperAddUser a, None), (Bind, None)]) pw = Some e \<longrightarrow>
                snd (add_user E self attrs tr) =
                  (tr @ [(SuperAddUser a, None), (Bind, None), (pw, Some e)], Inl e))
          \<and> decimal (B ''512'') = NORMAL_ACCOUNT
          \<and> NORMAL_ACCOUNT AND ACCOUNTDISABLE = 0"
proof -
  define a where "a = attrs (U ''unicodePwd'' := None,
                      U ''userPrincipalName'' \<mapsto> name @ U ''@'' @ domain self,
                      U ''displayName'' \<mapsto> cn)"
  define dn where "dn = byte_p2 E (U ''CN='' @ cn @ U '','' @ userdn self)"
  have u: "snd (add_user E self attrs tr) = add_user_session E self a password tr"
    unfolding a_def by (rule add_user_unfold [OF assms(1-3)])
  have acn: "a (U ''cn'') = Some cn"
    using assms(3) by (simp add: a_def keys_distinct)
  have upn: "a (U ''userPrincipalName'') = Some (name @ U ''@'' @ domain self)"
    by (simp add: a_def keys_distinct keys_distinct [symmetric])
  from add_user_session_calls [where a = a and cn = cn and E = E and self = self and tr = tr, OF acn assms(4)]
  obtain new where n: "fst (add_user_session E self a password tr) = tr @ new"
    "new \<noteq> []"
    "map fst new = take (length new)
       [SuperAddUser a, Bind, Modify dn [(MOD_REPLACE, U ''unicodePwd'', [w])],
        Modify dn [(MOD_REPLACE, U ''UserAccountControl'', [B ''512''])], Unbind]"
    "snd (add_user_session E self a password tr) = Inr () \<longrightarrow> length new = 5"
    "\<forall>e. snd (add_user_session E self a password tr) = Inl e \<longrightarrow> snd (last new) = Some e"
    unfolding dn_def by blast
  have nd: "\<forall>d. Delete d \<notin> fst ` set new"
    by (rule no_delete_in_prefix [OF n(3)]) simp
  have q: "(\<forall>h c. raises E h c = None) \<longrightarrow>
        add_user_session E self a password tr =
          (tr @ [(SuperAddUser a, None), (Bind, None),
                 (Modify dn [(MOD_REPLACE, U ''unicodePwd'', [w])], None),
                 (Modify dn [(MOD_REPLACE, U ''UserAccountControl'', [B ''512''])], None),
                 (Unbind, None)], Inr ())"
    unfolding dn_def using add_user_session_quiet [where a = a and cn = cn, OF acn assms(4)] by blast
  have r: "\<forall>e. raises E tr (SuperAddUser a) = None
                \<and> raises E (tr @ [(SuperAddUser a, None)]) Bind = None
                \<and> raises E (tr @ [(SuperAddUser a, None), (Bind, None)])
                     (Modify dn [(MOD_REPLACE, U ''unicodePwd'', [w])]) = Some e \<longrightarrow>
        add_user_session E self a password tr =
          (tr @ [(SuperAddUser a, None), (Bind, None),
                 (Modify dn [(MOD_REPLACE, U ''unicodePwd'', [w])], Some e)], Inl e)"
    unfolding dn_def using add_user_session_refused [where a = a and cn = cn, OF acn assms(4)] by blast
  show ?thesis
    unfolding Let_def a_def [symmetric] dn_def [symmetric] u
    using upn n nd q r uac_value by blast
qed

theorem add_user_sequence_witness:
  "example_attrs (U ''unicodePwd'') = Some (U ''pw'')
   \<and> example_attrs (U ''sAMAccountName'') = Some (U ''alice'')
   \<and> example_attrs (U ''cn'') = Some (U ''Alice Liddell'')
   \<and> utf_16_le (dquote @ U ''pw'' @ dquote) = Inr [0x22, 0, 0x70, 0, 0x77, 0, 0x22, 0]
   \<and> (\<forall>h c. raises quiet h c = None)
   \<and> snd (add_user quiet example_backend example_attrs []) =
       ([(SuperAddUser
            (example_attrs (U ''unicodePwd'' := None,
               U ''userPrincipalName'' \<mapsto> U ''alice'' @ U ''@'' @ domain example_backend,
               U ''displayName'' \<mapsto> U ''Alice Liddell'')), None),
         (Bind, None),
         (Modify (U ''CN='' @ U ''Alice Liddell'' @ U '','' @ userdn example_backend)
            [(MOD_REPLACE, U ''unicodePwd'', [[0x22, 0, 0x70, 0, 0x77, 0, 0x22, 0]])], None),
         (Modify (U ''CN='' @ U ''Alice Liddell'' @ U '','' @ userdn example_backend)
            [(MOD_REPLACE, U ''UserAccountControl'', [B ''512''])], None),
         (Unbind, None)], Inr ())"
proof -
  have bp: "byte_p2 quiet = (\<lambda>s. s)" by (simp add: quiet_def)
  from add_user_sequence [OF example_attrs_keys utf_16_le_example, of example_backend quiet "[]"]
    quiet_never_raises
  have "snd (add_user quiet example_backend example_attrs []) =
       ([(SuperAddUser
            (example_attrs (U ''unicodePwd'' := None,
               U ''userPrincipalName'' \<mapsto> U ''alice'' @ U ''@'' @ domain example_backend,
               U ''displayName'' \<mapsto> U ''Alice Liddell'')), None),
         (Bind, None),
         (Modify (U ''CN='' @ U ''Alice Liddell'' @ U '','' @ userdn example_backend)
            [(MOD_REPLACE, U ''unicodePwd'', [[0x22, 0, 0x70, 0, 0x77, 0, 0x22, 0]])], None),
         (Modify (U ''CN='' @ U ''Alice Liddell'' @ U '','' @ userdn example_backend)
            [(MOD_REPLACE, U ''UserAccountControl'', [B ''512''])], None),
         (Unbind, None)], Inr ())"
    by (simp add: Let_def bp)
  with example_attrs_keys utf_16_le_example quiet_never_raises show ?thesis by simp
qed


subsection \<open>The password attribute\<close>

lemma add_user_session_results:
  assumes "a (U ''cn'') = Some cn" "utf_16_le (dquote @ password @ dquote) = Inr w"
  shows "\<exists>new. fst (add_user_session E self a password tr) = tr @ new
     \<and> new \<noteq> []
     \<and> map fst new = take (length new)
         [SuperAddUser a, Bind,
          Modify (byte_p2 E (U ''CN='' @ cn @ U '','' @ userdn self))
            [(MOD_REPLACE, U ''unicodePwd'', [w])],
          Modify (byte_p2 E (U ''CN='' @ cn @ U '','' @ userdn self))
            [(MOD_REPLACE, U ''UserAccountControl'', [B ''512''])],
          Unbind]
     \<and> snd ` set (butlast new) \<subseteq> {None}
     \<and> (snd (add_user_session E self a password tr) = Inr () \<longrightarrow>
           length new = 5 \<and> snd (last new) = None)
     \<and> (\<forall>e. snd (add_user_session E self a password tr) = Inl e \<longrightarrow>
           snd (last new) = Some e
           \<and> raises E (tr @ butlast new) (fst (last new)) = Some e)
     \<and> (length new < 5 \<longrightarrow> (\<exists>e. snd (add_user_session E self a password tr) = Inl e))"
  using assms
  by (simp add: add_user_session_def io_defs lookup_def Let_def split: option.splits)

lemma add_user_session_submits:
  assumes "a (U ''cn'') = Some cn" "utf_16_le (dquote @ password @ dquote) = Inr w"
    "raises E tr (SuperAddUser a) = None" "raises E (tr @ [(SuperAddUser a, None)]) Bind = None"
  shows "\<exists>r rest. fst (add_user_session E self a password tr) =
     tr @ [(SuperAddUser a, None), (Bind, None),
           (Modify (byte_p2 E (U ''CN='' @ cn @ U '','' @ userdn self))
              [(MOD_REPLACE, U ''unicodePwd'', [w])], r)] @ rest"
  using assms
  by (simp add: add_user_session_def io_defs lookup_def Let_def split: option.splits)

text \<open>
  C4. When the password in quotation marks can be encoded as UTF-16, low octet first,
  with the octets \<open>w\<close>: the calls of \<^verbatim>\<open>_set_password\<close> are the bind and then one
  modification that replaces \<^verbatim>\<open>unicodePwd\<close> by the single value \<open>w\<close>, and nothing
  else. The calls of \<^verbatim>\<open>add_user\<close> are an initial segment, never empty, of the
  inherited \<^verbatim>\<open>add_user\<close>, the bind, the modification that replaces \<^verbatim>\<open>unicodePwd\<close>
  by the single value \<open>w\<close>, the modification of \<^verbatim>\<open>UserAccountControl\<close> and the
  unbind; the segment stops only at a call that raises, with that exception as the
  result, so the password modification is submitted whenever the creation and the bind
  return. \<open>w\<close> does not depend on the conversion \<^verbatim>\<open>_byte_p2\<close>, and for a password
  of the basic plane it is the quotation mark, the code units of the password and the
  quotation mark, two octets each. When the password cannot be encoded,
  \<^verbatim>\<open>_set_password\<close> raises before any call.
\<close>

theorem password_wire_value:
  "(utf_16_le (dquote @ password @ dquote) = Inr w \<longrightarrow>
      (let dn = (if by_cn then byte_p2 E (U ''CN='' @ name @ U '','' @ userdn self)
                 else byte_p2 E name);
           pw = Modify dn [(MOD_REPLACE, U ''unicodePwd'', [w])]
       in (\<exists>new. fst (set_password E self name password by_cn tr) = tr @ new
             \<and> new \<noteq> []
             \<and> map fst new = take (length new) [Bind, pw]
             \<and> (snd (set_password E self name password by_cn tr) = Inr () \<longrightarrow>
                   length new = 2 \<and> snd ` set new = {None})
             \<and> (\<forall>e. snd (set_password E self name password by_cn tr) = Inl e \<longrightarrow>
                   snd (last new) = Some e))
        \<and> ((\<forall>h c. raises E h c = None) \<longrightarrow>
              set_password E self name password by_cn tr =
                (tr @ [(Bind, None), (pw, None)], Inr ())))
      \<and> (attrs (U ''unicodePwd'') = Some password \<and> attrs (U ''sAMAccountName'') = Some nm
            \<and> attrs (U ''cn'') = Some cn \<longrightarrow>
          (let a = attrs (U ''unicodePwd'' := None,
                         U ''userPrincipalName'' \<mapsto> nm @ U ''@'' @ domain self,
                         U ''displayName'' \<mapsto> cn);
               dn = byte_p2 E (U ''CN='' @ cn @ U '','' @ userdn self);
               pw = Modify dn [(MOD_REPLACE, U ''unicodePwd'', [w])];
               uac = Modify dn [(MOD_REPLACE, U ''UserAccountControl'', [B ''512''])]
           in (\<exists>new. fst (snd (add_user E self attrs tr)) = tr @ new
                 \<and> new \<noteq> []
                 \<and> map fst new = take (length new) [SuperAddUser a, Bind, pw, uac, Unbind]
                 \<and> snd ` set (butlast new) \<subseteq> {None}
                 \<and> (snd (snd (add_user E self attrs tr)) = Inr () \<longrightarrow>
                       length new = 5 \<and> snd (last new) = None)
                 \<and> (\<forall>e. snd (snd (add_user E self attrs tr)) = Inl e \<longrightarrow>
                       snd (last new) = Some e
                       \<and> raises E (tr @ butlast new) (fst (last new)) = Some e)
                 \<and> (length new < 5 \<longrightarrow> (\<exists>e. snd (snd (add_user E self attrs tr)) = Inl e)))
            \<and> (raises E tr (SuperAddUser a) = None
                 \<and> raises E (tr @ [(SuperAddUser a, None)]) Bind = None \<longrightarrow>
                 (\<exists>r rest. fst (snd (add_user E self attrs tr)) =
                    tr @ [(SuperAddUser a, None), (Bind, None), (pw, r)] @ rest))
            \<and> ((\<forall>h c. raises E h c = None) \<longrightarrow>
                 snd (add_user E self attrs tr) =
                   (tr @ [(SuperAddUser a, None), (Bind, None), (pw, None), (uac, None),
                          (Unbind, None)], Inr ()))))
      \<and> ((\<forall>c \<in> set password. c < 0xD800) \<longrightarrow>
            w = [0x22, 0] @ concat (map (\<lambda>c. [c mod 256, c div 256]) password) @ [0x22, 0]))
   \<and> (\<forall>e. utf_16_le (dquote @ password @ dquote) = Inl e \<longrightarrow>
         set_password E self name password by_cn tr = (tr, Inl e))"
proof (intro conjI impI allI)
  fix e assume "utf_16_le (dquote @ password @ dquote) = Inl e"
  then show "set_password E self name password by_cn tr = (tr, Inl e)"
    by (rule set_password_unencodable)
next
  assume enc: "utf_16_le (dquote @ password @ dquote) = Inr w"
  show "let dn = (if by_cn then byte_p2 E (U ''CN='' @ name @ U '','' @ userdn self)
                 else byte_p2 E name);
           pw = Modify dn [(MOD_REPLACE, U ''unicodePwd'', [w])]
       in (\<exists>new. fst (set_password E self name password by_cn tr) = tr @ new
             \<and> new \<noteq> []
             \<and> map fst new = take (length new) [Bind, pw]
             \<and> (snd (set_password E self name password by_cn tr) = Inr () \<longrightarrow>
                   length new = 2 \<and> snd ` set new = {None})
             \<and> (\<forall>e. snd (set_password E self name password by_cn tr) = Inl e \<longrightarrow>
                   snd (last new) = Some e))
        \<and> ((\<forall>h c. raises E h c = None) \<longrightarrow>
              set_password E self name password by_cn tr =
                (tr @ [(Bind, None), (pw, None)], Inr ()))"
    unfolding Let_def
    using set_password_calls [OF enc, of E self name by_cn tr]
      set_password_quiet [OF enc, of E self name by_cn tr]
    by blast
next
  assume enc: "utf_16_le (dquote @ password @ dquote) = Inr w"
    and k: "attrs (U ''unicodePwd'') = Some password \<and> attrs (U ''sAMAccountName'') = Some nm
            \<and> attrs (U ''cn'') = Some cn"
  define a where "a = attrs (U ''unicodePwd'' := None,
                      U ''userPrincipalName'' \<mapsto> nm @ U ''@'' @ domain self,
                      U ''displayName'' \<mapsto> cn)"
  define dn where "dn = byte_p2 E (U ''CN='' @ cn @ U '','' @ userdn self)"
  have u: "snd (add_user E self attrs tr) = add_user_session E self a password tr"
    unfolding a_def using k by (simp add: add_user_unfold)
  have acn: "a (U ''cn'') = Some cn"
    using k by (simp add: a_def keys_distinct)
  note r1 = add_user_session_results [where a = a and cn = cn and E = E and self = self
      and tr = tr, OF acn enc, folded dn_def]
  note r2 = add_user_session_submits [where a = a and cn = cn and E = E and self = self
      and tr = tr, OF acn enc, folded dn_def]
  note r3 = add_user_session_quiet [where a = a and cn = cn and E = E and self = self
      and tr = tr, OF acn enc, folded dn_def]
  show "let a = attrs (U ''unicodePwd'' := None,
                         U ''userPrincipalName'' \<mapsto> nm @ U ''@'' @ domain self,
                         U ''displayName'' \<mapsto> cn);
               dn = byte_p2 E (U ''CN='' @ cn @ U '','' @ userdn self);
               pw = Modify dn [(MOD_REPLACE, U ''unicodePwd'', [w])];
               uac = Modify dn [(MOD_REPLACE, U ''UserAccountControl'', [B ''512''])]
           in (\<exists>new. fst (snd (add_user E self attrs tr)) = tr @ new
                 \<and> new \<noteq> []
                 \<and> map fst new = take (length new) [SuperAddUser a, Bind, pw, uac, Unbind]
                 \<and> snd ` set (butlast new) \<subseteq> {None}
                 \<and> (snd (snd (add_user E self attrs tr)) = Inr () \<longrightarrow>
                       length new = 5 \<and> snd (last new) = None)
                 \<and> (\<forall>e. snd (snd (add_user E self attrs tr)) = Inl e \<longrightarrow>
                       snd (last new) = Some e
                       \<and> raises E (tr @ butlast new) (fst (last new)) = Some e)
                 \<and> (length new < 5 \<longrightarrow> (\<exists>e. snd (snd (add_user E self attrs tr)) = Inl e)))
            \<and> (raises E tr (SuperAddUser a) = None
                 \<and> raises E (tr @ [(SuperAddUser a, None)]) Bind = None \<longrightarrow>
                 (\<exists>r rest. fst (snd (add_user E self attrs tr)) =
                    tr @ [(SuperAddUser a, None), (Bind, None), (pw, r)] @ rest))
            \<and> ((\<forall>h c. raises E h c = None) \<longrightarrow>
                 snd (add_user E self attrs tr) =
                   (tr @ [(SuperAddUser a, None), (Bind, None), (pw, None), (uac, None),
                          (Unbind, None)], Inr ()))"
    unfolding Let_def a_def [symmetric] dn_def [symmetric] u
    using r1 r2 r3 by blast
next
  assume enc: "utf_16_le (dquote @ password @ dquote) = Inr w"
    and b: "\<forall>c \<in> set password. c < 0xD800"
  have "\<forall>c \<in> set (dquote @ password @ dquote). c < 0xD800"
    using b by (auto simp: dquote_def)
  from utf_16_le_bmp [OF this] enc
  show "w = [0x22, 0] @ concat (map (\<lambda>c. [c mod 256, c div 256]) password) @ [0x22, 0]"
    by (simp add: dquote_def)
qed

theorem password_wire_value_witness:
  "utf_16_le (dquote @ U ''pw'' @ dquote) = Inr [0x22, 0, 0x70, 0, 0x77, 0, 0x22, 0]
   \<and> (\<forall>h c. raises quiet h c = None)
   \<and> example_attrs (U ''unicodePwd'') = Some (U ''pw'')
   \<and> example_attrs (U ''sAMAccountName'') = Some (U ''alice'')
   \<and> example_attrs (U ''cn'') = Some (U ''Alice Liddell'')
   \<and> set_password quiet example_backend (U ''alice'') (U ''pw'') True [] =
       ([(Bind, None),
         (Modify (U ''CN='' @ U ''alice'' @ U '','' @ userdn example_backend)
            [(MOD_REPLACE, U ''unicodePwd'', [[0x22, 0, 0x70, 0, 0x77, 0, 0x22, 0]])], None)],
        Inr ())
   \<and> snd (add_user quiet example_backend example_attrs []) =
       ([(SuperAddUser
            (example_attrs (U ''unicodePwd'' := None,
               U ''userPrincipalName'' \<mapsto> U ''alice'' @ U ''@'' @ domain example_backend,
               U ''displayName'' \<mapsto> U ''Alice Liddell'')), None),
         (Bind, None),
         (Modify (U ''CN='' @ U ''Alice Liddell'' @ U '','' @ userdn example_backend)
            [(MOD_REPLACE, U ''unicodePwd'', [[0x22, 0, 0x70, 0, 0x77, 0, 0x22, 0]])], None),
         (Modify (U ''CN='' @ U ''Alice Liddell'' @ U '','' @ userdn example_backend)
            [(MOD_REPLACE, U ''UserAccountControl'', [B ''512''])], None),
         (Unbind, None)], Inr ())"
proof -
  have bp: "byte_p2 quiet = (\<lambda>s. s)" by (simp add: quiet_def)
  note t = password_wire_value [of "U ''pw''" "[0x22, 0, 0x70, 0, 0x77, 0, 0x22, 0]" True quiet
      "U ''alice''" example_backend "[]" example_attrs "U ''alice''" "U ''Alice Liddell''"]
  from t utf_16_le_example quiet_never_raises
  have s: "set_password quiet example_backend (U ''alice'') (U ''pw'') True [] =
       ([(Bind, None),
         (Modify (U ''CN='' @ U ''alice'' @ U '','' @ userdn example_backend)
            [(MOD_REPLACE, U ''unicodePwd'', [[0x22, 0, 0x70, 0, 0x77, 0, 0x22, 0]])], None)],
        Inr ())"
    by (simp add: Let_def bp)
  from t utf_16_le_example quiet_never_raises example_attrs_keys
  have a: "snd (add_user quiet example_backend example_attrs []) =
       ([(SuperAddUser
            (example_attrs (U ''unicodePwd'' := None,
               U ''userPrincipalName'' \<mapsto> U ''alice'' @ U ''@'' @ domain example_backend,
               U ''displayName'' \<mapsto> U ''Alice Liddell'')), None),
         (Bind, None),
         (Modify (U ''CN='' @ U ''Alice Liddell'' @ U '','' @ userdn example_backend)
            [(MOD_REPLACE, U ''unicodePwd'', [[0x22, 0, 0x70, 0, 0x77, 0, 0x22, 0]])], None),
         (Modify (U ''CN='' @ U ''Alice Liddell'' @ U '','' @ userdn example_backend)
            [(MOD_REPLACE, U ''UserAccountControl'', [B ''512''])], None),
         (Unbind, None)], Inr ())"
    by (simp add: Let_def bp)
  from s a utf_16_le_example quiet_never_raises example_attrs_keys show ?thesis by simp
qed

lemma refusing_raises:
  "raises refusing h (Modify dn ms) = Some (LDAPError 53)"
  "raises refusing h Bind = None"
  "raises refusing h (SuperAddUser a) = None"
  by (simp_all add: refusing_def quiet_def)

lemma search_group_quiet:
  "search_group quiet self f g tr =
     (tr @ [(Bind, None), (Search g f, None), (Unbind, None)],
      Inr (found quiet (tr @ [(Bind, None)]) g f))"
  by (simp add: search_group_def io_defs Let_def quiet_def)

subsection \<open>Sessions left open\<close>

text \<open>
  C8 does not hold of the code. \<^verbatim>\<open>_set_password\<close> binds a session and returns after
  the modification without closing it: in a directory where nothing raises, its trace
  is the bind and the modification, and one session is left bound. \<^verbatim>\<open>add_user\<close>
  leaves its session bound when a modification raises. \<^verbatim>\<open>_search_group\<close>, in the same
  module, closes the session it binds.
\<close>
theorem set_password_leaves_session_open:
  "set_password quiet example_backend (U ''alice'') (U ''pw'') True [] =
     ([(Bind, None),
       (Modify (U ''CN='' @ U ''alice'' @ U '','' @ userdn example_backend)
          [(MOD_REPLACE, U ''unicodePwd'', [[0x22, 0, 0x70, 0, 0x77, 0, 0x22, 0]])], None)],
      Inr ())
   \<and> open_sessions (fst (set_password quiet example_backend (U ''alice'') (U ''pw'') True [])) = 1
   \<and> snd (snd (add_user refusing example_backend example_attrs [])) = Inl (LDAPError 53)
   \<and> open_sessions (fst (snd (add_user refusing example_backend example_attrs []))) = 1
   \<and> open_sessions (fst (search_group quiet example_backend (U ''(member=x)'')
                            (groupdn example_backend) [])) = 0"
proof -
  have bp: "byte_p2 quiet = (\<lambda>s. s)" by (simp add: quiet_def)
  have s: "set_password quiet example_backend (U ''alice'') (U ''pw'') True [] =
     ([(Bind, None),
       (Modify (U ''CN='' @ U ''alice'' @ U '','' @ userdn example_backend)
          [(MOD_REPLACE, U ''unicodePwd'', [[0x22, 0, 0x70, 0, 0x77, 0, 0x22, 0]])], None)],
      Inr ())"
    using set_password_quiet [OF utf_16_le_example quiet_never_raises,
        of example_backend "U ''alice''" True "[]"]
    by (simp add: bp)
  define a where "a = example_attrs (U ''unicodePwd'' := None,
      U ''userPrincipalName'' \<mapsto> U ''alice'' @ U ''@'' @ domain example_backend,
      U ''displayName'' \<mapsto> U ''Alice Liddell'')"
  have u: "snd (add_user refusing example_backend example_attrs []) =
      add_user_session refusing example_backend a (U ''pw'') []"
    unfolding a_def by (rule add_user_unfold [OF example_attrs_keys])
  have acn: "a (U ''cn'') = Some (U ''Alice Liddell'')"
    using example_attrs_keys(3) by (simp add: a_def keys_distinct)
  have r: "add_user_session refusing example_backend a (U ''pw'') [] =
     ([(SuperAddUser a, None), (Bind, None),
       (Modify (byte_p2 refusing (U ''CN='' @ U ''Alice Liddell'' @ U '','' @ userdn example_backend))
          [(MOD_REPLACE, U ''unicodePwd'', [[0x22, 0, 0x70, 0, 0x77, 0, 0x22, 0]])],
        Some (LDAPError 53))], Inl (LDAPError 53))"
    using add_user_session_refused [where a = a and cn = "U ''Alice Liddell''" and E = refusing
        and tr = "[]" and self = example_backend and e = "LDAPError 53",
        OF acn utf_16_le_example]
    by (simp add: refusing_raises)
  show ?thesis
    unfolding s u r search_group_quiet
    by (simp add: open_sessions_def)
qed

lemma cn_names_append:
  "cn_names E (xs @ ys) =
     bind_err (cn_names E xs) (\<lambda>n1. bind_err (cn_names E ys) (\<lambda>n2. Inr (n1 @ n2)))"
  by (induction xs) (simp_all add: bind_err_def split: sum.splits)

lemma cn_names_append_Inr:
  assumes "cn_names E (xs @ ys) = Inr names"
  shows "\<exists>n1 n2. cn_names E xs = Inr n1 \<and> cn_names E ys = Inr n2 \<and> names = n1 @ n2"
  using assms unfolding cn_names_append
  by (auto simp add: bind_err_def split: sum.splits)

lemma get_groups_quiet_example:
  "snd (get_groups quiet example_backend (U ''alice'') []) = Inr [U ''Users'', U ''Users'']"
  by (simp add: get_groups_def search_group_quiet io_defs Let_def)
     (simp add: quiet_def U_def B_def bind_err_def lookup_def)

subsection \<open>The groups of a user\<close>

text \<open>
  C6, as stated, fails: when the group container and the builtin container each hold
  a group named \<^verbatim>\<open>Users\<close> of which the user is a member, \<^verbatim>\<open>get_groups\<close> returns
  the name twice.
\<close>

theorem get_groups_duplicates_counterexample:
  "snd (get_groups quiet example_backend (U ''alice'') []) = Inr [U ''Users'', U ''Users'']
   \<and> \<not> distinct [U ''Users'', U ''Users'']"
  using get_groups_quiet_example by simp

text \<open>
  C6, amended. When \<^verbatim>\<open>get_groups\<close> returns, it has searched the group container and
  then the builtin container with the same filter, and its result is the names read
  from the entries of the first search followed by the names read from the entries of
  the second: every name found in either container is returned, and nothing else.
\<close>


theorem get_groups_concatenates:
  assumes "get_groups E self username tr = (tr', Inr names)"
  shows "let u = byte_p2 E (escape_filter_chars E username);
             f = byte_p2 E (U ''(member='' @ user_dn E tr u @ U '')'');
             t1 = tr @ [(GetUser u, None), (Bind, None)];
             t2 = t1 @ [(Search (groupdn self) f, None), (Unbind, None), (Bind, None)]
         in tr' = t2 @ [(Search (builtin self) f, None), (Unbind, None), (LogDebug, None)]
          \<and> (\<exists>n1 n2. cn_names E (found E t1 (groupdn self) f) = Inr n1
                \<and> cn_names E (found E t2 (builtin self) f) = Inr n2
                \<and> names = n1 @ n2
                \<and> set names = set n1 \<union> set n2)"
proof -
  define u where "u = byte_p2 E (escape_filter_chars E username)"
  define f where "f = byte_p2 E (U ''(member='' @ user_dn E tr u @ U '')'')"
  define t1 where "t1 = tr @ [(GetUser u, None), (Bind, None)]"
  define t2 where "t2 = t1 @ [(Search (groupdn self) f, None), (Unbind, None), (Bind, None)]"
  from assms have
    tr': "tr' = t2 @ [(Search (builtin self) f, None), (Unbind, None), (LogDebug, None)]" and
    c: "cn_names E (found E t1 (groupdn self) f @ found E t2 (builtin self) f) = Inr names"
    unfolding t2_def t1_def f_def u_def
    by (auto simp add: get_groups_def search_group_def io_defs Let_def
        split: option.splits sum.splits prod.splits)
  from cn_names_append_Inr [OF c] obtain n1 n2 where
    "cn_names E (found E t1 (groupdn self) f) = Inr n1"
    "cn_names E (found E t2 (builtin self) f) = Inr n2" "names = n1 @ n2"
    by blast
  with tr' show ?thesis
    unfolding Let_def u_def [symmetric] f_def [symmetric] t1_def [symmetric] t2_def [symmetric]
    by auto
qed

theorem get_groups_concatenates_witness:
  "get_groups quiet example_backend (U ''alice'') [] =
     (fst (get_groups quiet example_backend (U ''alice'') []), Inr [U ''Users'', U ''Users''])
   \<and> (\<exists>n1 n2. [U ''Users'', U ''Users''] = n1 @ n2
         \<and> set [U ''Users'', U ''Users''] = set n1 \<union> set n2)"
proof -
  have h: "get_groups quiet example_backend (U ''alice'') [] =
     (fst (get_groups quiet example_backend (U ''alice'') []), Inr [U ''Users'', U ''Users''])"
    using get_groups_quiet_example by (simp add: prod_eq_iff)
  from get_groups_concatenates [OF h]
  have "\<exists>n1 n2. [U ''Users'', U ''Users''] = n1 @ n2
         \<and> set [U ''Users'', U ''Users''] = set n1 \<union> set n2"
    unfolding Let_def by blast
  with h show ?thesis by blast
qed


subsection \<open>Loading the role catalogue\<close>


lemma load_records_Inr:
  "(\<exists>c. load_records ks cs cat rs = Inr c) =
     ((\<forall>r \<in> set rs. \<not> lacks_key r)
      \<and> distinct (map role_key rs) \<and> set (map role_key rs) \<inter> set ks = {}
      \<and> distinct (map resolved_content rs) \<and> set (map resolved_content rs) \<inter> set cs = {})"
proof (induction rs arbitrary: ks cs cat)
  case Nil
  show ?case by simp
next
  case (Cons r rs)
  show ?case
  proof (cases "lacks_key r \<or> role_key r \<in> set ks \<or> resolved_content r \<in> set cs")
    case True
    then show ?thesis by auto
  next
    case False
    then have "load_records ks cs cat (r # rs) =
        load_records (role_key r # ks) (resolved_content r # cs) (cat (role_key r \<mapsto> r)) rs"
      by simp
    then have "(\<exists>c. load_records ks cs cat (r # rs) = Inr c) =
        (\<exists>c. load_records (role_key r # ks) (resolved_content r # cs)
               (cat (role_key r \<mapsto> r)) rs = Inr c)"
      by (simp only:)
    also have "\<dots> = ((\<forall>r \<in> set rs. \<not> lacks_key r)
      \<and> distinct (map role_key rs) \<and> set (map role_key rs) \<inter> set (role_key r # ks) = {}
      \<and> distinct (map resolved_content rs)
      \<and> set (map resolved_content rs) \<inter> set (resolved_content r # cs) = {})"
      by (rule Cons.IH)
    also have "\<dots> = ((\<forall>r \<in> set (r # rs). \<not> lacks_key r)
      \<and> distinct (map role_key (r # rs)) \<and> set (map role_key (r # rs)) \<inter> set ks = {}
      \<and> distinct (map resolved_content (r # rs))
      \<and> set (map resolved_content (r # rs)) \<inter> set cs = {})"
      using False by auto
    finally show ?thesis .
  qed
qed

lemma load_records_MissingKey:
  "load_records ks cs cat rs = Inl MissingKey \<Longrightarrow> \<exists>r \<in> set rs. lacks_key r"
  by (induction rs arbitrary: ks cs cat) (auto split: if_splits)

lemma load_records_DuplicateRoleKey:
  "load_records ks cs cat rs = Inl DuplicateRoleKey \<Longrightarrow>
     \<not> (distinct (map role_key rs) \<and> set (map role_key rs) \<inter> set ks = {})"
proof (induction rs arbitrary: ks cs cat)
  case Nil
  then show ?case by simp
next
  case (Cons r rs)
  show ?case
  proof (cases "lacks_key r \<or> role_key r \<in> set ks \<or> resolved_content r \<in> set cs")
    case True
    with Cons.prems show ?thesis by (auto split: if_splits)
  next
    case False
    with Cons.prems have "load_records (role_key r # ks) (resolved_content r # cs)
        (cat (role_key r \<mapsto> r)) rs = Inl DuplicateRoleKey" by simp
    from Cons.IH [OF this] show ?thesis by auto
  qed
qed

lemma load_records_DuplicateRoleContent:
  "load_records ks cs cat rs = Inl DuplicateRoleContent \<Longrightarrow>
     \<not> (distinct (map resolved_content rs) \<and> set (map resolved_content rs) \<inter> set cs = {})"
proof (induction rs arbitrary: ks cs cat)
  case Nil
  then show ?case by simp
next
  case (Cons r rs)
  show ?case
  proof (cases "lacks_key r \<or> role_key r \<in> set ks \<or> resolved_content r \<in> set cs")
    case True
    with Cons.prems show ?thesis by (auto split: if_splits)
  next
    case False
    with Cons.prems have "load_records (role_key r # ks) (resolved_content r # cs)
        (cat (role_key r \<mapsto> r)) rs = Inl DuplicateRoleContent" by simp
    from Cons.IH [OF this] show ?thesis by auto
  qed
qed

lemma load_records_not_MissingRolesFile:
  "load_records ks cs cat rs \<noteq> Inl MissingRolesFile"
  by (induction rs arbitrary: ks cs cat) auto

lemma Load_cases:
  "(\<exists>c. Load (Some rs) = Inr c) \<or> Load (Some rs) = Inl MissingKey
   \<or> Load (Some rs) = Inl DuplicateRoleKey \<or> Load (Some rs) = Inl DuplicateRoleContent"
proof (cases "Load (Some rs)")
  case (Inl e)
  then show ?thesis
    using load_records_not_MissingRolesFile [of "[]" "[]" Map.empty rs]
    by (cases e) (simp_all add: Load_def)
next
  case (Inr c)
  then show ?thesis by blast
qed

text \<open>
  C9. \<open>Load\<close> of an absent source fails with \<open>MissingRolesFile\<close>, and of a present
  source never does. On a present source it succeeds exactly when no role lacks its
  display name or its backends, the keys are distinct and the resolved contents are
  distinct. Each of the other three errors is raised only for its own defect (a role
  lacking a key, two roles with one key, two roles with one content), and a source with
  one kind of defect only fails with the error of that kind. The four errors are
  pairwise distinct.
\<close>
theorem Load_error_kinds:
  "Load None = Inl MissingRolesFile
   \<and> Load (Some rs) \<noteq> Inl MissingRolesFile
   \<and> ((\<exists>c. Load (Some rs) = Inr c) =
        ((\<forall>r \<in> set rs. \<not> lacks_key r) \<and> distinct (map role_key rs)
         \<and> distinct (map resolved_content rs)))
   \<and> (Load (Some rs) = Inl MissingKey \<longrightarrow> (\<exists>r \<in> set rs. lacks_key r))
   \<and> (Load (Some rs) = Inl DuplicateRoleKey \<longrightarrow> \<not> distinct (map role_key rs))
   \<and> (Load (Some rs) = Inl DuplicateRoleContent \<longrightarrow> \<not> distinct (map resolved_content rs))
   \<and> ((\<exists>r \<in> set rs. lacks_key r) \<and> distinct (map role_key rs)
        \<and> distinct (map resolved_content rs) \<longrightarrow> Load (Some rs) = Inl MissingKey)
   \<and> ((\<forall>r \<in> set rs. \<not> lacks_key r) \<and> \<not> distinct (map role_key rs)
        \<and> distinct (map resolved_content rs) \<longrightarrow> Load (Some rs) = Inl DuplicateRoleKey)
   \<and> ((\<forall>r \<in> set rs. \<not> lacks_key r) \<and> distinct (map role_key rs)
        \<and> \<not> distinct (map resolved_content rs) \<longrightarrow> Load (Some rs) = Inl DuplicateRoleContent)
   \<and> distinct [MissingRolesFile, MissingKey, DuplicateRoleKey, DuplicateRoleContent]"
proof -
  have ok: "(\<exists>c. Load (Some rs) = Inr c) =
        ((\<forall>r \<in> set rs. \<not> lacks_key r) \<and> distinct (map role_key rs)
         \<and> distinct (map resolved_content rs))"
    using load_records_Inr [of "[]" "[]" Map.empty rs] by (simp add: Load_def)
  have mk: "Load (Some rs) = Inl MissingKey \<Longrightarrow> \<exists>r \<in> set rs. lacks_key r"
    using load_records_MissingKey [of "[]" "[]" Map.empty rs] by (simp add: Load_def)
  have dk: "Load (Some rs) = Inl DuplicateRoleKey \<Longrightarrow> \<not> distinct (map role_key rs)"
    using load_records_DuplicateRoleKey [of "[]" "[]" Map.empty rs] by (simp add: Load_def)
  have dc: "Load (Some rs) = Inl DuplicateRoleContent \<Longrightarrow> \<not> distinct (map resolved_content rs)"
    using load_records_DuplicateRoleContent [of "[]" "[]" Map.empty rs] by (simp add: Load_def)
  have nf: "Load (Some rs) \<noteq> Inl MissingRolesFile"
    using load_records_not_MissingRolesFile [of "[]" "[]" Map.empty rs] by (simp add: Load_def)
  have none: "Load None = Inl MissingRolesFile" by (simp add: Load_def)
  have d: "distinct [MissingRolesFile, MissingKey, DuplicateRoleKey, DuplicateRoleContent]"
    by simp
  show ?thesis
    using ok mk dk dc nf none d Load_cases [of rs] by blast
qed

theorem Load_error_kinds_witness:
  "Load (Some [example_role (U ''admin'') (U ''Administrators''),
               example_role (U ''admin'') (U ''Users'')]) = Inl DuplicateRoleKey
   \<and> Load (Some [example_role (U ''admin'') (U ''Administrators''),
                 example_role (U ''root'') (U ''Administrators'')]) = Inl DuplicateRoleContent
   \<and> Load (Some [(example_role (U ''admin'') (U ''Users'')) \<lparr> display_name := None \<rparr>])
       = Inl MissingKey
   \<and> Load None = Inl MissingRolesFile"
proof -
  have 1: "Load (Some [example_role (U ''admin'') (U ''Administrators''),
               example_role (U ''admin'') (U ''Users'')]) = Inl DuplicateRoleKey"
    using Load_error_kinds [of "[example_role (U ''admin'') (U ''Administrators''),
               example_role (U ''admin'') (U ''Users'')]"]
    by (simp add: example_role_def lacks_key_def resolved_content_def assignment_content_def
        U_def)
  have 2: "Load (Some [example_role (U ''admin'') (U ''Administrators''),
                 example_role (U ''root'') (U ''Administrators'')]) = Inl DuplicateRoleContent"
    using Load_error_kinds [of "[example_role (U ''admin'') (U ''Administrators''),
                 example_role (U ''root'') (U ''Administrators'')]"]
    by (simp add: example_role_def lacks_key_def resolved_content_def assignment_content_def
        U_def)
  have 3: "Load (Some [(example_role (U ''admin'') (U ''Users'')) \<lparr> display_name := None \<rparr>])
       = Inl MissingKey"
    using Load_error_kinds [of "[(example_role (U ''admin'') (U ''Users''))
        \<lparr> display_name := None \<rparr>]"]
    by (simp add: example_role_def lacks_key_def)
  have 4: "Load None = Inl MissingRolesFile"
    using Load_error_kinds [of "[]"] by simp
  from 1 2 3 4 show ?thesis by simp
qed


end
